theory Spec2Isabelle
  imports Complex_Main "HOL-Library.Log_Nat" "HOL-Library.Multiset"
begin

section \<open>JavaScript values\<close>

subsection \<open>Numbers\<close>

text \<open>
  A JavaScript number is an IEEE-754 double. A finite double is modelled by the rational
  it denotes. The sum of two doubles is their exact sum rounded to the nearest double,
  ties to the even significand: \<open>round_double\<close> rounds a rational on the grid of
  doubles around it. For \<open>x\<close> with \<open>2 ^ e \<le> \<bar>x\<bar> < 2 ^ (e + 1)\<close> the neighbouring doubles
  are \<open>2 ^ (e - 52)\<close> apart, and \<open>2 ^ - 1074\<close> apart below \<open>2 ^ - 1022\<close>. Beyond the
  largest double JavaScript gives \<open>Infinity\<close>; the only sum taken below adds 1000 to a
  stored double, which stays in range (the largest doubles are \<open>2 ^ 971\<close> apart), so
  \<open>Infinity\<close> and \<open>NaN\<close> are left out. The numbers of a JSON body are doubles already.
\<close>

definition round_half_even :: "rat \<Rightarrow> int" where
  "round_half_even r =
     (let f = \<lfloor>r\<rfloor>; d = r - of_int f
      in if d < 1 / 2 then f else if 1 / 2 < d then f + 1 else if even f then f else f + 1)"

text \<open>For \<open>0 < x\<close>, the \<open>e\<close> with \<open>2 ^ e \<le> x < 2 ^ (e + 1)\<close>.\<close>

definition floor_log2 :: "rat \<Rightarrow> int" where
  "floor_log2 x =
     (if 1 \<le> x then int (floorlog 2 (nat \<lfloor>x\<rfloor>)) - 1
      else - int (floorlog 2 (nat (\<lceil>1 / x\<rceil> - 1))))"

definition round_double :: "rat \<Rightarrow> rat" where
  "round_double x =
     (if x = 0 then 0
      else let e = max (floor_log2 \<bar>x\<bar>) (- 1022); q = 2 powi (e - 52)
           in q * of_int (round_half_even (x / q)))"

text \<open>\<^verbatim>\<open>x + y\<close> on numbers.\<close>

definition js_add :: "rat \<Rightarrow> rat \<Rightarrow> rat" where
  "js_add x y = round_double (x + y)"

subsection \<open>Strings and body values\<close>

text \<open>
  A JavaScript string is a sequence of UTF-16 code units. Identifiers are only compared,
  and stay Isabelle strings; titles and the strings a body may carry in place of a number
  are code units. \<open>ascii\<close> writes an ASCII text as code units.
\<close>

type_synonym js_string = "nat list"

definition ascii :: "string \<Rightarrow> js_string" where
  "ascii s = map of_char s"

text \<open>
  A value of a JSON body where the handler expects a number: absent (\<open>undefined\<close>),
  \<open>null\<close>, a boolean, a number or a string. Arrays and objects are not modelled.
\<close>

datatype js_value =
    JUndefined
  | JNull
  | JBool bool
  | JNumber rat
  | JString js_string

section \<open>Request validation\<close>

text \<open>
  The routes declare their checks with express-validator, which runs them with
  validator.js before the handler; the handler answers 400 when
  \<^verbatim>\<open>validationResult(req)\<close> holds an error. The checks used here are modelled after
  validator.js 13.

  \<^verbatim>\<open>body('title').trim().isLength({ min: 1 })\<close>: \<open>trim\<close> strips the characters of
  the regular expression class \<^verbatim>\<open>\s\<close> from both ends and replaces the title by the
  result; \<open>isLength\<close> counts the code units without the variation selectors U+FE0E and
  U+FE0F and with one less for each surrogate pair.
\<close>

definition is_ws :: "nat \<Rightarrow> bool" where
  "is_ws c =
     List.member
       [0x0009, 0x000A, 0x000B, 0x000C, 0x000D, 0x0020, 0x00A0, 0x1680,
        0x2000, 0x2001, 0x2002, 0x2003, 0x2004, 0x2005, 0x2006, 0x2007, 0x2008, 0x2009,
        0x200A, 0x2028, 0x2029, 0x202F, 0x205F, 0x3000, 0xFEFF] c"

definition trim :: "js_string \<Rightarrow> js_string" where
  "trim s = rev (dropWhile is_ws (rev (dropWhile is_ws s)))"

definition is_variation_selector :: "nat \<Rightarrow> bool" where
  "is_variation_selector c = (c = 0xFE0F \<or> c = 0xFE0E)"

fun surrogate_pairs :: "js_string \<Rightarrow> nat" where
  "surrogate_pairs (h # l # cs) =
     (if 0xD800 \<le> h \<and> h \<le> 0xDBFF \<and> 0xDC00 \<le> l \<and> l \<le> 0xDFFF
      then Suc (surrogate_pairs cs) else surrogate_pairs (l # cs))"
| "surrogate_pairs cs = 0"

definition isLength :: "nat \<Rightarrow> js_string \<Rightarrow> bool" where
  "isLength m s =
     (m \<le> length s - length (filter is_variation_selector s) - surrogate_pairs s)"

definition title_ok :: "js_string \<Rightarrow> bool" where
  "title_ok title = isLength 1 (trim title)"

text \<open>
  \<^verbatim>\<open>body('position').isNumeric()\<close>: the value is turned into a string and matched
  against \<^verbatim>\<open>^[+-]?([0-9]*[.])?[0-9]+$\<close>. \<open>undefined\<close> and \<open>null\<close> give the empty
  string and a boolean gives \<open>true\<close> or \<open>false\<close>, none of which matches. A number gives
  what \<^verbatim>\<open>String(x)\<close> prints: plain decimal digits, which match, for zero and for a
  magnitude from the double nearest to \<open>10 ^ - 6\<close> up to, and without, \<open>10 ^ 21\<close>; and
  a form with an exponent (\<open>1e+21\<close>, \<open>1e-7\<close>), which does not match, for every other
  number.
\<close>

definition is_digit :: "nat \<Rightarrow> bool" where
  "is_digit c = (0x30 \<le> c \<and> c \<le> 0x39)"

definition numeric_string :: "js_string \<Rightarrow> bool" where
  "numeric_string s =
     (let unsigned = (case s of [] \<Rightarrow> [] | c # cs \<Rightarrow> if c = 0x2B \<or> c = 0x2D then cs else s);
          rest = dropWhile is_digit unsigned
      in case rest of
           [] \<Rightarrow> unsigned \<noteq> []
         | c # fraction \<Rightarrow> c = 0x2E \<and> fraction \<noteq> [] \<and> list_all is_digit fraction)"

text \<open>The double nearest to \<open>10 ^ - 6\<close>, the least magnitude printed without exponent.\<close>

definition min_plain :: rat where
  "min_plain = 4722366482869645 / 2 ^ 72"

definition prints_plain :: "rat \<Rightarrow> bool" where
  "prints_plain x = (x = 0 \<or> (min_plain \<le> \<bar>x\<bar> \<and> \<bar>x\<bar> < 10 ^ 21))"

fun isNumeric :: "js_value \<Rightarrow> bool" where
  "isNumeric (JNumber x) = prints_plain x"
| "isNumeric (JString s) = numeric_string s"
| "isNumeric JUndefined = False"
| "isNumeric JNull = False"
| "isNumeric (JBool b) = False"

text \<open>\<^verbatim>\<open>.optional()\<close> skips the checks of a field that is \<open>undefined\<close>.\<close>

definition optional_numeric :: "js_value \<Rightarrow> bool" where
  "optional_numeric v = (v = JUndefined \<or> isNumeric v)"

section \<open>Storage: the rows the position and broadcast code reads and writes\<close>

text \<open>
  The backend keeps boards, lists and cards in a relational store reached through Prisma.
  A row keeps the columns the handlers below read or write; descriptions, due dates,
  labels, assignments and comments are left out. The \<open>position\<close> column holds a
  JavaScript number.
\<close>

type_synonym ident = string

record board =
  board_id :: ident
  board_ownerId :: ident
  board_members :: "ident list"

record list_row =
  list_id :: ident
  list_title :: js_string
  list_boardId :: ident
  list_position :: rat

record card =
  card_id :: ident
  card_title :: js_string
  card_listId :: ident
  card_position :: rat

record activity =
  act_type :: string
  act_cardId :: ident
  act_boardId :: ident
  act_userId :: ident

record db =
  boards :: "board list"
  lists :: "list_row list"
  cards :: "card list"
  activities :: "activity list"

datatype http_error =
    ValidationFailed
  | AccessDenied
  | NotFound
  | ServerError

text \<open>
  The access filter every query repeats:
  \<^verbatim>\<open>OR: [{ ownerId: uid }, { members: { some: { userId: uid } } }]\<close>.
\<close>

definition has_access :: "ident \<Rightarrow> board \<Rightarrow> bool" where
  "has_access uid b = (board_ownerId b = uid \<or> List.member (board_members b) uid)"

definition board_findFirst :: "db \<Rightarrow> ident \<Rightarrow> ident \<Rightarrow> board option" where
  "board_findFirst d bid uid =
     find (\<lambda>b. board_id b = bid \<and> has_access uid b) (boards d)"

definition list_findFirst :: "db \<Rightarrow> ident \<Rightarrow> ident \<Rightarrow> list_row option" where
  "list_findFirst d lid uid =
     find (\<lambda>l. list_id l = lid \<and>
               list_ex (\<lambda>b. board_id b = list_boardId l \<and> has_access uid b) (boards d))
          (lists d)"

definition card_findFirst :: "db \<Rightarrow> ident \<Rightarrow> ident \<Rightarrow> card option" where
  "card_findFirst d cid uid =
     find (\<lambda>c. card_id c = cid \<and>
               list_ex (\<lambda>l. list_id l = card_listId c \<and>
                   list_ex (\<lambda>b. board_id b = list_boardId l \<and> has_access uid b) (boards d))
                 (lists d))
          (cards d)"

text \<open>
  \<^verbatim>\<open>findFirst({ where, orderBy: { position: 'desc' } })\<close>: a row of greatest position
  among those given, none when there is no row.
\<close>

fun highest :: "('a \<Rightarrow> rat) \<Rightarrow> 'a list \<Rightarrow> 'a option" where
  "highest f [] = None"
| "highest f (x # xs) =
     (case highest f xs of
        None \<Rightarrow> Some x
      | Some y \<Rightarrow> if f x < f y then Some y else Some x)"

definition cards_of :: "db \<Rightarrow> ident \<Rightarrow> card list" where
  "cards_of d lid = filter (\<lambda>c. card_listId c = lid) (cards d)"

definition lists_of :: "db \<Rightarrow> ident \<Rightarrow> list_row list" where
  "lists_of d bid = filter (\<lambda>l. list_boardId l = bid) (lists d)"

text \<open>
  Prisma checks the data of a write against the column types before it reaches the
  store: a number is taken for the \<open>position\<close> column, and a write with any other value
  there is rejected.
\<close>

fun prisma_float :: "js_value \<Rightarrow> rat option" where
  "prisma_float (JNumber x) = Some x"
| "prisma_float v = None"

text \<open>
  \<^verbatim>\<open>prisma.X.update({ where: { id }, data })\<close> rewrites the row with that identifier and
  returns it; it rejects when there is no such row.
\<close>

definition update_row ::
  "('a \<Rightarrow> ident) \<Rightarrow> 'a list \<Rightarrow> ident \<Rightarrow> ('a \<Rightarrow> 'a) \<Rightarrow> ('a list \<times> 'a) option" where
  "update_row key rows i f =
     (case find (\<lambda>r. key r = i) rows of
        None \<Rightarrow> None
      | Some r \<Rightarrow> Some (map (\<lambda>r. if key r = i then f r else r) rows, f r))"

section \<open>Creating cards and lists\<close>

text \<open>
  \<^verbatim>\<open>POST /cards\<close>, with \<^verbatim>\<open>body('position').optional().isNumeric()\<close>. Without a
  position in the body the handler takes the highest position in the list and adds 1000
  (\<^verbatim>\<open>lastCard.position + 1000\<close>), or takes 1000 when the list has no card; a position
  in the body is passed on as it is. The identifier of the new row is chosen by the
  store and is a parameter here.
\<close>

record create_card_body =
  cc_title :: js_string
  cc_listId :: ident
  cc_position :: js_value

definition create_card ::
  "db \<Rightarrow> ident \<Rightarrow> ident \<Rightarrow> create_card_body \<Rightarrow> db \<times> (http_error + card)" where
  "create_card d uid new_id body =
     (if \<not> (title_ok (cc_title body) \<and> optional_numeric (cc_position body))
      then (d, Inl ValidationFailed)
      else
        case list_findFirst d (cc_listId body) uid of
          None \<Rightarrow> (d, Inl AccessDenied)
        | Some l \<Rightarrow>
            let cardPosition =
                  (if cc_position body = JUndefined
                   then (case highest card_position (cards_of d (cc_listId body)) of
                           Some lastCard \<Rightarrow> JNumber (js_add (card_position lastCard) 1000)
                         | None \<Rightarrow> JNumber 1000)
                   else cc_position body)
            in case prisma_float cardPosition of
                 None \<Rightarrow> (d, Inl ServerError)
               | Some p \<Rightarrow>
                   let c = \<lparr>card_id = new_id, card_title = trim (cc_title body),
                            card_listId = cc_listId body, card_position = p\<rparr>;
                       a = \<lparr>act_type = ''card_created'', act_cardId = new_id,
                            act_boardId = list_boardId l, act_userId = uid\<rparr>
                   in (d\<lparr>cards := cards d @ [c], activities := activities d @ [a]\<rparr>, Inr c))"

text \<open>\<^verbatim>\<open>POST /lists\<close>, the same allocation for a list in a board.\<close>

record create_list_body =
  cl_title :: js_string
  cl_boardId :: ident
  cl_position :: js_value

definition create_list ::
  "db \<Rightarrow> ident \<Rightarrow> ident \<Rightarrow> create_list_body \<Rightarrow> db \<times> (http_error + list_row)" where
  "create_list d uid new_id body =
     (if \<not> (title_ok (cl_title body) \<and> optional_numeric (cl_position body))
      then (d, Inl ValidationFailed)
      else
        case board_findFirst d (cl_boardId body) uid of
          None \<Rightarrow> (d, Inl AccessDenied)
        | Some b \<Rightarrow>
            let listPosition =
                  (if cl_position body = JUndefined
                   then (case highest list_position (lists_of d (cl_boardId body)) of
                           Some lastList \<Rightarrow> JNumber (js_add (list_position lastList) 1000)
                         | None \<Rightarrow> JNumber 1000)
                   else cl_position body)
            in case prisma_float listPosition of
                 None \<Rightarrow> (d, Inl ServerError)
               | Some p \<Rightarrow>
                   let l = \<lparr>list_id = new_id, list_title = trim (cl_title body),
                            list_boardId = cl_boardId body, list_position = p\<rparr>
                   in (d\<lparr>lists := lists d @ [l]\<rparr>, Inr l))"

section \<open>Moving a card\<close>

text \<open>
  \<^verbatim>\<open>PUT /cards/:id/move\<close>, with \<^verbatim>\<open>body('listId').isString()\<close>, which an
  identifier meets, and \<^verbatim>\<open>body('position').isNumeric()\<close>. The handler looks up
  the card and the target list under the caller's access filter and then writes the
  body's \<open>listId\<close> and \<open>position\<close> into the card's row. A string that passed
  \<open>isNumeric\<close> is still a string when it reaches the write, which Prisma rejects: the
  handler answers 500. In the cards router \<^verbatim>\<open>PUT '/:id'\<close> stands before
  \<^verbatim>\<open>PUT '/:id/move'\<close>, but matches paths of one segment only.
\<close>

record move_body =
  mv_listId :: ident
  mv_position :: js_value

definition move_card ::
  "db \<Rightarrow> ident \<Rightarrow> ident \<Rightarrow> move_body \<Rightarrow> db \<times> (http_error + card)" where
  "move_card d uid cid body =
     (if \<not> isNumeric (mv_position body) then (d, Inl ValidationFailed)
      else
        case (card_findFirst d cid uid, list_findFirst d (mv_listId body) uid) of
          (Some c, Some targetList) \<Rightarrow>
            (case prisma_float (mv_position body) of
               None \<Rightarrow> (d, Inl ServerError)
             | Some position \<Rightarrow>
                 (case update_row card_id (cards d) cid
                         (\<lambda>r. r\<lparr>card_listId := mv_listId body, card_position := position\<rparr>) of
                    None \<Rightarrow> (d, Inl ServerError)
                  | Some (rows, updatedCard) \<Rightarrow>
                      let a = \<lparr>act_type = ''card_moved'', act_cardId = card_id updatedCard,
                               act_boardId = list_boardId targetList, act_userId = uid\<rparr>
                      in (d\<lparr>cards := rows, activities := activities d @ [a]\<rparr>,
                          Inr updatedCard)))
        | _ \<Rightarrow> (d, Inl NotFound))"

section \<open>The lists router: updating a list and reordering the lists of a board\<close>

text \<open>
  The body of a \<open>PUT\<close> request under \<^verbatim>\<open>/lists\<close>, with the fields the two handlers
  read; a field the request does not carry is \<open>None\<close> or \<open>JUndefined\<close>.
\<close>

record lists_put_body =
  lp_title :: "js_string option"
  lp_position :: js_value
  lp_listIds :: "ident list option"
  lp_boardId :: "ident option"

datatype lists_put_ok =
    UpdatedList list_row
  | ListsReordered_ok

text \<open>
  \<^verbatim>\<open>router.put('/:id', ...)\<close>, with
  \<^verbatim>\<open>body('title').optional().trim().isLength({ min: 1 })\<close> and
  \<^verbatim>\<open>body('position').optional().isNumeric()\<close>. The handler looks the list up under the
  caller's access filter and writes the title and the position the body carries.
\<close>

definition update_list ::
  "db \<Rightarrow> ident \<Rightarrow> ident \<Rightarrow> lists_put_body \<Rightarrow> db \<times> (http_error + lists_put_ok)" where
  "update_list d uid lid body =
     (if \<not> ((case lp_title body of None \<Rightarrow> True | Some t \<Rightarrow> title_ok t) \<and>
             optional_numeric (lp_position body))
      then (d, Inl ValidationFailed)
      else
        case list_findFirst d lid uid of
          None \<Rightarrow> (d, Inl NotFound)
        | Some l \<Rightarrow>
            let set_title = (\<lambda>r. case lp_title body of
                                    None \<Rightarrow> r
                                  | Some t \<Rightarrow> r\<lparr>list_title := trim t\<rparr>)
            in if lp_position body = JUndefined
               then (case update_row list_id (lists d) lid set_title of
                       None \<Rightarrow> (d, Inl ServerError)
                     | Some (rows, updatedList) \<Rightarrow>
                         (d\<lparr>lists := rows\<rparr>, Inr (UpdatedList updatedList)))
               else (case prisma_float (lp_position body) of
                       None \<Rightarrow> (d, Inl ServerError)
                     | Some p \<Rightarrow>
                         (case update_row list_id (lists d) lid
                                 (\<lambda>r. (set_title r)\<lparr>list_position := p\<rparr>) of
                            None \<Rightarrow> (d, Inl ServerError)
                          | Some (rows, updatedList) \<Rightarrow>
                              (d\<lparr>lists := rows\<rparr>, Inr (UpdatedList updatedList)))))"

text \<open>
  \<^verbatim>\<open>router.put('/reorder', ...)\<close>, with \<^verbatim>\<open>body('listIds').isArray({ min: 1 })\<close>
  and \<^verbatim>\<open>body('boardId').isString()\<close>. The handler maps the identifiers to one update
  each, \<^verbatim>\<open>listIds.map((listId, index) => prisma.list.update({ where: { id: listId },
  data: { position: (index + 1) * 1000 } }))\<close>, and awaits \<^verbatim>\<open>Promise.all(updates)\<close>.
  Every update is issued on its own: a rejected one makes the handler answer 500 and
  neither stops nor undoes the others. The updates are run here in index order. An
  index is below \<open>2 ^ 32\<close>, so the product is a whole number below \<open>2 ^ 53\<close> and exact
  as a double.
\<close>

definition reorder_updates :: "ident list \<Rightarrow> (ident \<times> rat) list" where
  "reorder_updates listIds =
     map (\<lambda>(index, listId). (listId, (of_nat index + 1) * 1000)) (enumerate 0 listIds)"

fun run_updates :: "list_row list \<Rightarrow> (ident \<times> rat) list \<Rightarrow> list_row list \<times> bool" where
  "run_updates rows [] = (rows, True)"
| "run_updates rows ((i, p) # us) =
     (case update_row list_id rows i (\<lambda>l. l\<lparr>list_position := p\<rparr>) of
        None \<Rightarrow> (fst (run_updates rows us), False)
      | Some (rows', _) \<Rightarrow> run_updates rows' us)"

definition reorder_lists ::
  "db \<Rightarrow> ident \<Rightarrow> lists_put_body \<Rightarrow> db \<times> (http_error + lists_put_ok)" where
  "reorder_lists d uid body =
     (case (lp_listIds body, lp_boardId body) of
        (Some listIds, Some boardId) \<Rightarrow>
          if length listIds < 1 then (d, Inl ValidationFailed)
          else
            (case board_findFirst d boardId uid of
               None \<Rightarrow> (d, Inl AccessDenied)
             | Some b \<Rightarrow>
                 let (rows, fulfilled) = run_updates (lists d) (reorder_updates listIds)
                 in (d\<lparr>lists := rows\<rparr>,
                     if fulfilled then Inr ListsReordered_ok else Inl ServerError))
      | _ \<Rightarrow> (d, Inl ValidationFailed))"

text \<open>
  The router tries its routes in the order they were registered and gives the request
  to the first whose path matches; a handler that answers does not pass the request on.
  Under \<^verbatim>\<open>/lists\<close> the \<open>PUT\<close> routes are \<^verbatim>\<open>'/:id'\<close> and then \<^verbatim>\<open>'/reorder'\<close>. A path is
  the list of its segments; \<^verbatim>\<open>:id\<close> matches any one segment.
\<close>

datatype segment = Param | Literal string

fun segment_matches :: "segment \<Rightarrow> string \<Rightarrow> bool" where
  "segment_matches Param s = True"
| "segment_matches (Literal l) s = (s = l)"

definition route_matches :: "segment list \<Rightarrow> string list \<Rightarrow> bool" where
  "route_matches pattern path = list_all2 segment_matches pattern path"

type_synonym lists_put_handler =
  "db \<Rightarrow> ident \<Rightarrow> string list \<Rightarrow> lists_put_body \<Rightarrow> db \<times> (http_error + lists_put_ok)"

definition update_list_route :: lists_put_handler where
  "update_list_route d uid path body =
     (case path of [i] \<Rightarrow> update_list d uid i body | _ \<Rightarrow> (d, Inl NotFound))"

definition reorder_route :: lists_put_handler where
  "reorder_route d uid path body = reorder_lists d uid body"

definition lists_put_routes :: "(segment list \<times> lists_put_handler) list" where
  "lists_put_routes = [([Param], update_list_route), ([Literal ''reorder''], reorder_route)]"

definition lists_router_put :: lists_put_handler where
  "lists_router_put d uid path body =
     (case find (\<lambda>(pattern, handler). route_matches pattern path) lists_put_routes of
        None \<Rightarrow> (d, Inl NotFound)
      | Some (pattern, handler) \<Rightarrow> handler d uid path body)"

section \<open>Reading a board\<close>

text \<open>
  \<^verbatim>\<open>GET /boards/:id\<close> returns the lists of the board by ascending position, each with
  its cards by ascending position. The query names no second sort column, so the order
  of rows of equal position is left to the database: a view is what the handler may
  answer when its lists, and the cards of each, are the stored rows in some order that
  ascends by position.
\<close>

record list_view =
  lv_id :: ident
  lv_title :: js_string
  lv_position :: rat
  lv_cards :: "card list"

record board_view =
  bv_id :: ident
  bv_lists :: "list_view list"

definition ordered_by :: "('a \<Rightarrow> rat) \<Rightarrow> 'a list \<Rightarrow> 'a list \<Rightarrow> bool" where
  "ordered_by f rows out = (mset out = mset rows \<and> sorted (map f out))"

definition fetched_board :: "db \<Rightarrow> ident \<Rightarrow> ident \<Rightarrow> board_view \<Rightarrow> bool" where
  "fetched_board d uid bid v =
     (case board_findFirst d bid uid of
        None \<Rightarrow> False
      | Some b \<Rightarrow>
          bv_id v = board_id b \<and>
          ordered_by list_position (lists_of d (board_id b))
            (map (\<lambda>l. \<lparr>list_id = lv_id l, list_title = lv_title l,
                       list_boardId = board_id b, list_position = lv_position l\<rparr>)
                 (bv_lists v)) \<and>
          list_all (\<lambda>l. ordered_by card_position (cards_of d (lv_id l)) (lv_cards l))
            (bv_lists v))"

section \<open>The socket server\<close>

text \<open>
  A connection that passed the authentication middleware carries the user read from the
  store. A room is the set of socket identifiers that joined it; the room of a board is
  named \<^verbatim>\<open>board-${boardId}\<close>.
\<close>

record user =
  user_id :: ident
  user_name :: string
  user_email :: string

record socket =
  socket_id :: nat
  socket_user :: user

type_synonym rooms = "string \<Rightarrow> nat set"

definition room_name :: "ident \<Rightarrow> string" where
  "room_name boardId = ''board-'' @ boardId"

text \<open>
  What a client sends. The payloads typed \<open>any\<close> in the source (\<open>updates\<close>,
  \<open>comment\<close>) are opaque strings.
\<close>

datatype client_msg =
    JoinBoard ident
  | LeaveBoard ident
  | CardUpdated (cu_cardId: ident) (cu_boardId: ident) (cu_updates: string)
  | CardMoved (cm_cardId: ident) (cm_boardId: ident) (cm_fromListId: ident)
      (cm_toListId: ident) (cm_position: rat)
  | CommentAdded (ca_cardId: ident) (ca_boardId: ident) (ca_comment: string)
  | ListUpdated (lu_listId: ident) (lu_boardId: ident) (lu_updates: string)
  | ListsReordered (lr_boardId: ident) (lr_listIds: "ident list")
  | Disconnect

text \<open>
  What the server emits: the client's data with the acting user attached under
  \<open>updatedBy\<close>, \<open>movedBy\<close>, \<open>addedBy\<close> or \<open>reorderedBy\<close> (the last argument
  of each constructor). The receiving handler reads that field with \<^verbatim>\<open>?.\<close>, so it
  is optional here.
\<close>

datatype server_event =
    EvCardUpdated ident ident string "user option"
  | EvCardMoved ident ident ident ident rat "user option"
  | EvCommentAdded ident ident string "user option"
  | EvListUpdated ident ident string "user option"
  | EvListsReordered ident "ident list" "user option"

text \<open>
  \<^verbatim>\<open>socket.to(room).emit(...)\<close> of socket.io sends to every socket of the room except
  the one it is called on. An emission is kept as the set of receiving sockets and the
  event.
\<close>

type_synonym emission = "nat set \<times> server_event"

definition socket_to :: "rooms \<Rightarrow> socket \<Rightarrow> string \<Rightarrow> nat set" where
  "socket_to rms s room = rms room - {socket_id s}"

definition relay :: "db \<Rightarrow> rooms \<Rightarrow> socket \<Rightarrow> ident \<Rightarrow> server_event \<Rightarrow> emission list" where
  "relay d rms s boardId ev =
     (case board_findFirst d boardId (user_id (socket_user s)) of
        Some board \<Rightarrow> [(socket_to rms s (room_name boardId), ev)]
      | None \<Rightarrow> [])"

text \<open>
  The handlers registered on a connection, one equation for each \<^verbatim>\<open>socket.on\<close>.
  The result is the rooms afterwards and what was emitted. On \<open>disconnect\<close> the handler
  only logs; socket.io itself takes the socket out of its rooms.
\<close>

fun handle :: "db \<Rightarrow> rooms \<Rightarrow> socket \<Rightarrow> client_msg \<Rightarrow> rooms \<times> emission list" where
  "handle d rms s (JoinBoard boardId) =
     (case board_findFirst d boardId (user_id (socket_user s)) of
        Some board \<Rightarrow>
          (rms(room_name boardId := insert (socket_id s) (rms (room_name boardId))), [])
      | None \<Rightarrow> (rms, []))"
| "handle d rms s (LeaveBoard boardId) =
     (rms(room_name boardId := rms (room_name boardId) - {socket_id s}), [])"
| "handle d rms s (CardUpdated cardId boardId updates) =
     (rms, relay d rms s boardId
             (EvCardUpdated cardId boardId updates (Some (socket_user s))))"
| "handle d rms s (CardMoved cardId boardId fromListId toListId position) =
     (rms, relay d rms s boardId
             (EvCardMoved cardId boardId fromListId toListId position (Some (socket_user s))))"
| "handle d rms s (CommentAdded cardId boardId comment) =
     (rms, relay d rms s boardId
             (EvCommentAdded cardId boardId comment (Some (socket_user s))))"
| "handle d rms s (ListUpdated listId boardId updates) =
     (rms, relay d rms s boardId
             (EvListUpdated listId boardId updates (Some (socket_user s))))"
| "handle d rms s (ListsReordered boardId listIds) =
     (rms, relay d rms s boardId
             (EvListsReordered boardId listIds (Some (socket_user s))))"
| "handle d rms s Disconnect = (\<lambda>room. rms room - {socket_id s}, [])"

text \<open>The board a relayed message names, none for the control messages.\<close>

fun msg_boardId :: "client_msg \<Rightarrow> ident option" where
  "msg_boardId (CardUpdated cardId boardId updates) = Some boardId"
| "msg_boardId (CardMoved cardId boardId fromListId toListId position) = Some boardId"
| "msg_boardId (CommentAdded cardId boardId comment) = Some boardId"
| "msg_boardId (ListUpdated listId boardId updates) = Some boardId"
| "msg_boardId (ListsReordered boardId listIds) = Some boardId"
| "msg_boardId _ = None"

section \<open>The board page of the client\<close>

text \<open>
  The page holds the board it fetched and reacts to drops and to server events. What a
  handler does to the outside is listed as effects, in the order the source performs
  them: writes to the query cache, the two mutations, invalidating the board query
  (which makes the page fetch the board again), a toast, and messages on the socket.
\<close>

datatype effect =
    SetQueryData ident "board_view option"
  | MoveCardMutate ident ident rat
  | ReorderListsMutate "ident list"
  | InvalidateQueries ident
  | ToastError
  | SocketEmit client_msg

text \<open>
  The effect hook of the page: with a socket and a board identifier it emits
  \<open>join-board\<close> when it runs and \<open>leave-board\<close> when it is cleaned up.
\<close>

definition socket_effect_mount :: "bool \<Rightarrow> ident option \<Rightarrow> effect list" where
  "socket_effect_mount has_socket boardId =
     (case boardId of
        None \<Rightarrow> []
      | Some b \<Rightarrow> if has_socket then [SocketEmit (JoinBoard b)] else [])"

definition socket_effect_cleanup :: "bool \<Rightarrow> ident option \<Rightarrow> effect list" where
  "socket_effect_cleanup has_socket boardId =
     (case boardId of
        None \<Rightarrow> []
      | Some b \<Rightarrow> if has_socket then [SocketEmit (LeaveBoard b)] else [])"

text \<open>
  The five listeners, \<open>handleCardMoved\<close>, \<open>handleCardUpdated\<close>, \<open>handleCommentAdded\<close>,
  \<open>handleListUpdated\<close> and \<open>handleListsReordered\<close>. Each compares
  \<^verbatim>\<open>data.movedBy?.id !== user?.id\<close> (with its own field name): an absent object gives
  \<open>undefined\<close>, which is \<open>None\<close> here.
\<close>

fun on_server_event :: "user option \<Rightarrow> ident \<Rightarrow> server_event \<Rightarrow> effect list" where
  "on_server_event me boardId (EvCardMoved cardId b fromListId toListId position movedBy) =
     (if map_option user_id movedBy \<noteq> map_option user_id me
      then [InvalidateQueries boardId] else [])"
| "on_server_event me boardId (EvCardUpdated cardId b updates updatedBy) =
     (if map_option user_id updatedBy \<noteq> map_option user_id me
      then [InvalidateQueries boardId] else [])"
| "on_server_event me boardId (EvCommentAdded cardId b comment addedBy) =
     (if map_option user_id addedBy \<noteq> map_option user_id me
      then [InvalidateQueries boardId] else [])"
| "on_server_event me boardId (EvListUpdated listId b updates updatedBy) =
     (if map_option user_id updatedBy \<noteq> map_option user_id me
      then [InvalidateQueries boardId] else [])"
| "on_server_event me boardId (EvListsReordered b listIds reorderedBy) =
     (if map_option user_id reorderedBy \<noteq> map_option user_id me
      then [InvalidateQueries boardId] else [])"

text \<open>The acting user an event carries, whatever the field is called.\<close>

fun event_actor :: "server_event \<Rightarrow> user option" where
  "event_actor (EvCardMoved cardId b fromListId toListId position u) = u"
| "event_actor (EvCardUpdated cardId b updates u) = u"
| "event_actor (EvCommentAdded cardId b comment u) = u"
| "event_actor (EvListUpdated listId b updates u) = u"
| "event_actor (EvListsReordered b listIds u) = u"

subsection \<open>Drag and drop\<close>

record drop_loc =
  droppableId :: ident
  drop_index :: nat

record drop_result =
  destination :: "drop_loc option"
  source :: drop_loc
  drag_type :: string

text \<open>
  \<^verbatim>\<open>const [x] = xs.splice(i, 1)\<close> takes the item at \<open>i\<close> out of the array, and takes
  nothing (\<open>x\<close> is \<open>undefined\<close>) when \<open>i\<close> is past the end;
  \<^verbatim>\<open>xs.splice(i, 0, x)\<close> puts \<open>x\<close> in at \<open>i\<close>, at the end when \<open>i\<close> is past it;
  \<^verbatim>\<open>xs[i]\<close> is \<open>undefined\<close> past the end.
\<close>

definition splice_remove :: "nat \<Rightarrow> 'a list \<Rightarrow> 'a option \<times> 'a list" where
  "splice_remove i xs =
     (if i < length xs then (Some (xs ! i), take i xs @ drop (Suc i) xs) else (None, xs))"

definition splice_insert :: "nat \<Rightarrow> 'a \<Rightarrow> 'a list \<Rightarrow> 'a list" where
  "splice_insert i x xs = take i xs @ x # drop i xs"

definition nth_opt :: "'a list \<Rightarrow> nat \<Rightarrow> 'a option" where
  "nth_opt xs i = (if i < length xs then Some (xs ! i) else None)"

text \<open>
  \<^verbatim>\<open>cards.map((card, index) => ({ ...card, position: (index + 1) * 1000 }))\<close>. An
  index of a JavaScript array is below \<open>2 ^ 32\<close>, so the product is a whole number
  below \<open>2 ^ 53\<close> and exact as a double.
\<close>

definition renumber :: "card list \<Rightarrow> card list" where
  "renumber cs =
     map (\<lambda>(index, c). c\<lparr>card_position := (of_nat index + 1) * 1000\<rparr>) (enumerate 0 cs)"

definition set_cards :: "ident \<Rightarrow> card list \<Rightarrow> list_view \<Rightarrow> list_view" where
  "set_cards lid cs l = (if lv_id l = lid then l\<lparr>lv_cards := cs\<rparr> else l)"

definition view_lists :: "board_view option \<Rightarrow> list_view list" where
  "view_lists board = (case board of None \<Rightarrow> [] | Some b \<Rightarrow> bv_lists b)"

text \<open>
  \<open>handleDragEnd\<close>. The drag library reports indices inside the lists it shows. Where
  an index is outside, the JavaScript goes on with \<open>undefined\<close> in place of the item:
  the model stops there with \<open>SourceOutOfRange\<close>, and with \<open>DestinationOutOfRange\<close>
  where \<^verbatim>\<open>updatedCards[destination.index]\<close> is \<open>undefined\<close> and reading its \<open>id\<close>
  throws.
\<close>

datatype drag_error = SourceOutOfRange | DestinationOutOfRange

definition handleDragEnd ::
  "ident \<Rightarrow> board_view option \<Rightarrow> drop_result \<Rightarrow> drag_error + effect list" where
  "handleDragEnd boardId board result =
     (case destination result of
        None \<Rightarrow> Inr []
      | Some dest \<Rightarrow>
          let src = source result in
          if droppableId dest = droppableId src \<and> drop_index dest = drop_index src
          then Inr []
          else if drag_type result = ''list'' then
            (case splice_remove (drop_index src) (view_lists board) of
               (None, rest) \<Rightarrow> Inl SourceOutOfRange
             | (Some reorderedList, rest) \<Rightarrow>
                 let newListOrder = splice_insert (drop_index dest) reorderedList rest
                 in Inr [ReorderListsMutate (map lv_id newListOrder)])
          else
            (case (find (\<lambda>l. lv_id l = droppableId src) (view_lists board),
                   find (\<lambda>l. lv_id l = droppableId dest) (view_lists board)) of
               (Some sourceList, Some destList) \<Rightarrow>
                 if droppableId src = droppableId dest then
                   (case splice_remove (drop_index src) (lv_cards sourceList) of
                      (None, rest) \<Rightarrow> Inl SourceOutOfRange
                    | (Some movedCard, rest) \<Rightarrow>
                        let newCards = splice_insert (drop_index dest) movedCard rest;
                            updatedCards = renumber newCards;
                            optimistic =
                              map_option
                                (\<lambda>oldData. oldData\<lparr>bv_lists :=
                                   map (set_cards (droppableId src) updatedCards)
                                       (bv_lists oldData)\<rparr>)
                                board
                        in (case nth_opt updatedCards (drop_index dest) of
                              None \<Rightarrow> Inl DestinationOutOfRange
                            | Some movedCardData \<Rightarrow>
                                Inr [SetQueryData boardId optimistic,
                                     MoveCardMutate (card_id movedCardData) (droppableId src)
                                       (card_position movedCardData)]))
                 else
                   (case splice_remove (drop_index src) (lv_cards sourceList) of
                      (None, rest) \<Rightarrow> Inl SourceOutOfRange
                    | (Some movedCard, sourceCards) \<Rightarrow>
                        let destCards = splice_insert (drop_index dest) movedCard
                                          (lv_cards destList);
                            updatedSourceCards = renumber sourceCards;
                            updatedDestCards = renumber destCards;
                            optimistic =
                              map_option
                                (\<lambda>oldData. oldData\<lparr>bv_lists :=
                                   map (\<lambda>l. if lv_id l = droppableId src
                                             then l\<lparr>lv_cards := updatedSourceCards\<rparr>
                                             else if lv_id l = droppableId dest
                                             then l\<lparr>lv_cards := updatedDestCards\<rparr>
                                             else l)
                                       (bv_lists oldData)\<rparr>)
                                board
                        in (case nth_opt updatedDestCards (drop_index dest) of
                              None \<Rightarrow> Inl DestinationOutOfRange
                            | Some movedCardData \<Rightarrow>
                                Inr [SetQueryData boardId optimistic,
                                     MoveCardMutate (card_id movedCardData) (droppableId dest)
                                       (card_position movedCardData)]))
             | _ \<Rightarrow> Inr []))"

subsection \<open>The mutations\<close>

text \<open>
  \<open>moveCardMutation\<close> sends \<^verbatim>\<open>PUT /cards/:id/move\<close> with \<open>listId\<close> and the number
  \<open>position\<close>. It has an \<open>onError\<close> callback (a toast, and invalidating the board
  query) and no callback for success. \<open>reorderListsMutation\<close> sends
  \<^verbatim>\<open>PUT /lists/reorder\<close> with \<open>listIds\<close> and \<open>boardId\<close>, which goes through the lists
  router, and has the same callback. The caller is the user the request authenticates.
\<close>

definition moveCardMutation ::
  "db \<Rightarrow> ident \<Rightarrow> ident \<Rightarrow> ident \<Rightarrow> ident \<Rightarrow> rat \<Rightarrow> db \<times> effect list" where
  "moveCardMutation d uid boardId cardId listId position =
     (case move_card d uid cardId \<lparr>mv_listId = listId, mv_position = JNumber position\<rparr> of
        (d', Inr c) \<Rightarrow> (d', [])
      | (d', Inl e) \<Rightarrow> (d', [ToastError, InvalidateQueries boardId]))"

definition reorderListsMutation ::
  "db \<Rightarrow> ident \<Rightarrow> ident \<Rightarrow> ident list \<Rightarrow> db \<times> effect list" where
  "reorderListsMutation d uid boardId listIds =
     (case lists_router_put d uid [''reorder'']
             \<lparr>lp_title = None, lp_position = JUndefined, lp_listIds = Some listIds,
              lp_boardId = Some boardId\<rparr> of
        (d', Inr ok) \<Rightarrow> (d', [])
      | (d', Inl e) \<Rightarrow> (d', [ToastError, InvalidateQueries boardId]))"

section \<open>Client and server together\<close>

text \<open>
  One user action on the page of a connected client: the effects of the handler are
  carried out against the server in order. A mutation is an HTTP request made as the
  connection's user; what its callbacks do afterwards stays inside the page. A socket
  message goes through the connection's handlers. Writing the cache, invalidating a
  query and a toast do not reach the server.
\<close>

record system =
  sys_db :: db
  sys_rooms :: rooms

fun perform :: "system \<Rightarrow> socket \<Rightarrow> ident \<Rightarrow> effect \<Rightarrow> system \<times> emission list" where
  "perform sys s boardId (MoveCardMutate cardId listId position) =
     (sys\<lparr>sys_db := fst (moveCardMutation (sys_db sys) (user_id (socket_user s)) boardId
                            cardId listId position)\<rparr>, [])"
| "perform sys s boardId (ReorderListsMutate listIds) =
     (sys\<lparr>sys_db := fst (reorderListsMutation (sys_db sys) (user_id (socket_user s)) boardId
                            listIds)\<rparr>, [])"
| "perform sys s boardId (SocketEmit m) =
     (sys\<lparr>sys_rooms := fst (handle (sys_db sys) (sys_rooms sys) s m)\<rparr>,
      snd (handle (sys_db sys) (sys_rooms sys) s m))"
| "perform sys s boardId (SetQueryData b v) = (sys, [])"
| "perform sys s boardId (InvalidateQueries b) = (sys, [])"
| "perform sys s boardId ToastError = (sys, [])"

fun perform_all :: "system \<Rightarrow> socket \<Rightarrow> ident \<Rightarrow> effect list \<Rightarrow> system \<times> emission list" where
  "perform_all sys s boardId [] = (sys, [])"
| "perform_all sys s boardId (e # es) =
     (let (sys1, out1) = perform sys s boardId e;
          (sys2, out2) = perform_all sys1 s boardId es
      in (sys2, out1 @ out2))"

definition drop_on_page ::
  "system \<Rightarrow> socket \<Rightarrow> ident \<Rightarrow> board_view option \<Rightarrow> drop_result \<Rightarrow> system \<times> emission list" where
  "drop_on_page sys s boardId board result =
     (case handleDragEnd boardId board result of
        Inl e \<Rightarrow> (sys, [])
      | Inr effects \<Rightarrow> perform_all sys s boardId effects)"

text \<open>The events a connection receives out of a list of emissions.\<close>

definition received :: "nat \<Rightarrow> emission list \<Rightarrow> server_event list" where
  "received sid out = map snd (filter (\<lambda>(recipients, ev). sid \<in> recipients) out)"

text \<open>The stored position of a list, and the stored list and position of a card.\<close>

definition list_position_of :: "db \<Rightarrow> ident \<Rightarrow> rat option" where
  "list_position_of d i = map_option list_position (find (\<lambda>l. list_id l = i) (lists d))"

definition card_place_of :: "db \<Rightarrow> ident \<Rightarrow> (ident \<times> rat) option" where
  "card_place_of d i =
     map_option (\<lambda>c. (card_listId c, card_position c)) (find (\<lambda>c. card_id c = i) (cards d))"

section \<open>A small board\<close>

text \<open>
  Board \<open>B\<close> is owned by \<open>u1\<close> and has the member \<open>u2\<close>; \<open>u3\<close> has no access. Its
  list \<open>L\<close> holds the cards \<open>A\<close> at 1000 and \<open>C\<close> at 2000, its list \<open>M\<close> is empty.
\<close>

definition demo_db :: db where
  "demo_db =
     \<lparr>boards = [\<lparr>board_id = ''B'', board_ownerId = ''u1'', board_members = [''u2'']\<rparr>],
      lists = [\<lparr>list_id = ''L'', list_title = ascii ''Todo'', list_boardId = ''B'',
                list_position = 1000\<rparr>,
               \<lparr>list_id = ''M'', list_title = ascii ''Done'', list_boardId = ''B'',
                list_position = 2000\<rparr>],
      cards = [\<lparr>card_id = ''A'', card_title = ascii ''a'', card_listId = ''L'',
                card_position = 1000\<rparr>,
               \<lparr>card_id = ''C'', card_title = ascii ''c'', card_listId = ''L'',
                card_position = 2000\<rparr>],
      activities = []\<rparr>"

text \<open>The same board before any card was created.\<close>

definition demo_empty :: db where
  "demo_empty = demo_db\<lparr>cards := []\<rparr>"

definition demo_user :: "ident \<Rightarrow> user" where
  "demo_user uid = \<lparr>user_id = uid, user_name = uid, user_email = uid @ ''@example.com''\<rparr>"

definition demo_socket :: "nat \<Rightarrow> ident \<Rightarrow> socket" where
  "demo_socket n uid = \<lparr>socket_id = n, socket_user = demo_user uid\<rparr>"

definition no_rooms :: rooms where
  "no_rooms = (\<lambda>room. {})"

text \<open>Sockets 1 (user \<open>u1\<close>) and 2 (user \<open>u2\<close>) have joined the room of \<open>B\<close>.\<close>

definition demo_rooms :: rooms where
  "demo_rooms =
     fst (handle demo_db (fst (handle demo_db no_rooms (demo_socket 1 ''u1'') (JoinBoard ''B'')))
            (demo_socket 2 ''u2'') (JoinBoard ''B''))"

definition demo_system :: system where
  "demo_system = \<lparr>sys_db = demo_db, sys_rooms = demo_rooms\<rparr>"

text \<open>The board as the page of user \<open>u1\<close> holds it after fetching it.\<close>

definition demo_view :: "board_view option" where
  "demo_view =
     Some \<lparr>bv_id = ''B'',
       bv_lists =
         [\<lparr>lv_id = ''L'', lv_title = ascii ''Todo'', lv_position = 1000,
             lv_cards =
               [\<lparr>card_id = ''A'', card_title = ascii ''a'', card_listId = ''L'',
                   card_position = 1000\<rparr>,
                \<lparr>card_id = ''C'', card_title = ascii ''c'', card_listId = ''L'',
                   card_position = 2000\<rparr>]\<rparr>,
          \<lparr>lv_id = ''M'', lv_title = ascii ''Done'', lv_position = 2000, lv_cards = []\<rparr>]\<rparr>"

text \<open>Dragging the card at index 1 of \<open>L\<close> to index 0 of \<open>L\<close>.\<close>

definition drop_C_first :: drop_result where
  "drop_C_first =
     \<lparr>destination = Some \<lparr>droppableId = ''L'', drop_index = 0\<rparr>,
      source = \<lparr>droppableId = ''L'', drop_index = 1\<rparr>,
      drag_type = ''card''\<rparr>"

text \<open>Dragging the card at index 0 of \<open>L\<close> to index 0 of \<open>M\<close>.\<close>

definition drop_A_into_M :: drop_result where
  "drop_A_into_M =
     \<lparr>destination = Some \<lparr>droppableId = ''M'', drop_index = 0\<rparr>,
      source = \<lparr>droppableId = ''L'', drop_index = 0\<rparr>,
      drag_type = ''card''\<rparr>"

text \<open>Dragging the list at index 1 of the board (\<open>M\<close>) to index 0.\<close>

definition drop_M_first :: drop_result where
  "drop_M_first =
     \<lparr>destination = Some \<lparr>droppableId = ''board'', drop_index = 0\<rparr>,
      source = \<lparr>droppableId = ''board'', drop_index = 1\<rparr>,
      drag_type = ''list''\<rparr>"

text \<open>The body the page sends with \<^verbatim>\<open>PUT /lists/reorder\<close> for the order \<open>M\<close>, \<open>L\<close>.\<close>

definition reorder_M_L :: lists_put_body where
  "reorder_M_L =
     \<lparr>lp_title = None, lp_position = JUndefined, lp_listIds = Some [''M'', ''L''],
      lp_boardId = Some ''B''\<rparr>"

section \<open>Properties\<close>

subsection \<open>Rounding to a double\<close>

lemma nat_less_two_power: "0 \<le> z \<Longrightarrow> z < 2 ^ n \<Longrightarrow> nat z < 2 ^ n"
  by (metis nat_less_iff of_nat_numeral of_nat_power)

lemma two_power_le_nat: "2 ^ n \<le> z \<Longrightarrow> 2 ^ n \<le> nat z"
  by (metis le_nat_iff of_nat_numeral of_nat_power zero_le_numeral zero_le_power order_trans)

lemma floorlog2_eqI: "2 ^ k \<le> n \<Longrightarrow> n < 2 ^ Suc k \<Longrightarrow> floorlog 2 n = Suc k"
  using floorlog_leI [of n 2 "Suc k"] floorlog_ge_SucI [of 2 k n] by simp

text \<open>\<open>floor_log2\<close> finds the binade of a positive rational, above and below 1.\<close>

lemma floor_log2_ge1:
  assumes "2 ^ k \<le> x" "x < 2 ^ Suc k"
  shows "floor_log2 x = int k"
proof -
  have x1: "1 \<le> x"
    using assms(1) one_le_power [of "2::rat" k] by linarith
  have "(of_int (2 ^ k) :: rat) \<le> x"
    using assms(1) by simp
  then have lo: "2 ^ k \<le> \<lfloor>x\<rfloor>"
    by (simp only: le_floor_iff)
  have "of_int \<lfloor>x\<rfloor> \<le> x"
    by (rule of_int_floor_le)
  then have "of_int \<lfloor>x\<rfloor> < (2 ^ Suc k :: rat)"
    using assms(2) by (rule le_less_trans)
  then have "of_int \<lfloor>x\<rfloor> < (of_int (2 ^ Suc k) :: rat)"
    by simp
  then have hi: "\<lfloor>x\<rfloor> < 2 ^ Suc k"
    by (simp only: of_int_less_iff)
  have "floorlog 2 (nat \<lfloor>x\<rfloor>) = Suc k"
  proof (rule floorlog2_eqI)
    show "2 ^ k \<le> nat \<lfloor>x\<rfloor>"
      using lo by (rule two_power_le_nat)
    have "0 \<le> \<lfloor>x\<rfloor>"
      using x1 by simp
    then show "nat \<lfloor>x\<rfloor> < 2 ^ Suc k"
      using hi by (rule nat_less_two_power)
  qed
  with x1 show ?thesis
    by (simp add: floor_log2_def)
qed

lemma floor_log2_less1:
  assumes "1 / 2 ^ Suc k \<le> x" "x < 1 / 2 ^ k"
  shows "floor_log2 x = - int (Suc k)"
proof -
  have "0 < 1 / (2::rat) ^ Suc k"
    by simp
  with assms(1) have x0: "0 < x"
    by linarith
  have "1 / 2 ^ k \<le> (1::rat)"
    using one_le_power [of "2::rat" k] by (simp add: field_simps)
  with assms(2) have x1: "\<not> 1 \<le> x"
    by linarith
  let ?y = "1 / x"
  have y_hi: "?y \<le> 2 ^ Suc k"
    using assms(1) x0 by (simp add: field_simps)
  have y_lo: "2 ^ k < ?y"
    using assms(2) x0 by (simp add: field_simps)
  have "?y \<le> of_int (2 ^ Suc k)"
    using y_hi by simp
  then have c_hi: "\<lceil>?y\<rceil> \<le> 2 ^ Suc k"
    by (simp only: ceiling_le_iff)
  have "of_int (2 ^ k) < ?y"
    using y_lo by simp
  then have c_lo: "2 ^ k < \<lceil>?y\<rceil>"
    by (simp only: less_ceiling_iff)
  have "floorlog 2 (nat (\<lceil>?y\<rceil> - 1)) = Suc k"
  proof (rule floorlog2_eqI)
    have "2 ^ k \<le> \<lceil>?y\<rceil> - 1"
      using c_lo by simp
    then show "2 ^ k \<le> nat (\<lceil>?y\<rceil> - 1)"
      by (rule two_power_le_nat)
    have "0 < (2::int) ^ k"
      by simp
    with c_lo have "0 < \<lceil>?y\<rceil>"
      by linarith
    with c_hi have "0 \<le> \<lceil>?y\<rceil> - 1" "\<lceil>?y\<rceil> - 1 < 2 ^ Suc k"
      by linarith+
    then show "nat (\<lceil>?y\<rceil> - 1) < 2 ^ Suc k"
      by (rule nat_less_two_power)
  qed
  with x1 show ?thesis
    by (simp add: floor_log2_def)
qed

lemma round_double_eval:
  assumes "x \<noteq> 0" "floor_log2 \<bar>x\<bar> = e" "- 1022 \<le> e"
  shows "round_double x = 2 powi (e - 52) * of_int (round_half_even (x / 2 powi (e - 52)))"
  using assms by (simp add: round_double_def Let_def max_def)

lemma round_half_even_int [simp]: "round_half_even (of_int k) = k"
  by (simp add: round_half_even_def)

lemma round_half_even_nearest:
  assumes "\<bar>r - of_int z\<bar> < 1 / 2"
  shows "round_half_even r = z"
proof (cases "of_int z \<le> r")
  case True
  with assms have "\<lfloor>r\<rfloor> = z"
    by (intro floor_unique) (simp_all add: abs_if split: if_splits)
  with assms True show ?thesis
    by (simp add: round_half_even_def Let_def abs_if split: if_splits)
next
  case False
  with assms have "\<lfloor>r\<rfloor> = z - 1"
    by (intro floor_unique) (simp_all add: abs_if split: if_splits)
  with assms False show ?thesis
    by (simp add: round_half_even_def Let_def abs_if split: if_splits)
qed

text \<open>A whole number of magnitude below \<open>2 ^ 53\<close> is a double.\<close>

lemma round_double_int:
  assumes "\<bar>n\<bar> < 2 ^ 53"
  shows "round_double (of_int n) = of_int n"
proof (cases "n = 0")
  case True
  then show ?thesis
    by (simp add: round_double_def)
next
  case False
  define m where "m = nat \<bar>n\<bar>"
  have m: "0 < m" "m < 2 ^ 53"
    using False assms by (simp_all add: m_def nat_less_iff)
  have abs: "\<bar>(of_int n :: rat)\<bar> = of_nat m"
    by (simp add: m_def)
  define e where "e = int (floorlog 2 m) - 1"
  have fl: "floor_log2 \<bar>of_int n\<bar> = e"
    using m(1) unfolding abs by (simp add: floor_log2_def e_def)
  have up: "floorlog 2 m \<le> 53"
    using m(2) by (simp add: floorlog_le_iff)
  have lo: "1 \<le> floorlog 2 m"
    using m(1) floorlog_ge_SucI [of 2 0 m] by simp
  define k where "k = 53 - floorlog 2 m"
  have "e - 52 = - int k"
    using up by (simp add: k_def e_def)
  then have q: "(2::rat) powi (e - 52) = 1 / 2 ^ k"
    by (simp add: power_int_minus_divide)
  have "of_int n / (1 / 2 ^ k) = (of_int (n * 2 ^ k) :: rat)"
    by simp
  then have r: "round_half_even (of_int n / (1 / 2 ^ k)) = n * 2 ^ k"
    by (simp only: round_half_even_int)
  have "round_double (of_int n) =
      2 powi (e - 52) * of_int (round_half_even (of_int n / 2 powi (e - 52)))"
    using False fl lo by (intro round_double_eval) (simp_all add: e_def)
  then show ?thesis
    unfolding q r by simp
qed

lemma js_add_int:
  "\<bar>m + n\<bar> < 2 ^ 53 \<Longrightarrow> js_add (of_int m) (of_int n) = of_int (m + n)"
  using round_double_int [of "m + n"] by (simp add: js_add_def)

lemma js_add_small:
  "js_add 1000 1000 = 2000" "js_add 2000 1000 = 3000"
  using js_add_int [of 1000 1000] js_add_int [of 2000 1000] by simp_all

text \<open>
  \<open>10 ^ 19\<close> is a double, and the doubles next to it are 2048 apart: adding 1000 gives
  \<open>10 ^ 19\<close> again.
\<close>

lemma round_double_far:
  "round_double 10000000000000000000 = 10000000000000000000"
  "round_double (10000000000000000000 + 1000) = 10000000000000000000"
  "round_double 10000000000000001000 = 10000000000000000000"
proof -
  have "floor_log2 \<bar>10000000000000000000\<bar> = int 63"
    by (rule floor_log2_ge1) simp_all
  then have "round_double 10000000000000000000 =
      2 powi (63 - 52) * of_int (round_half_even (10000000000000000000 / 2 powi (63 - 52)))"
    by (intro round_double_eval) simp_all
  moreover have "round_half_even (10000000000000000000 / 2 powi (63 - 52)) = 4882812500000000"
    by (rule round_half_even_nearest) simp
  ultimately show "round_double 10000000000000000000 = 10000000000000000000"
    by simp
  have "floor_log2 \<bar>10000000000000001000\<bar> = int 63"
    by (rule floor_log2_ge1) simp_all
  then have "round_double 10000000000000001000 =
      2 powi (63 - 52) * of_int (round_half_even (10000000000000001000 / 2 powi (63 - 52)))"
    by (intro round_double_eval) simp_all
  moreover have "round_half_even (10000000000000001000 / 2 powi (63 - 52)) = 4882812500000000"
    by (rule round_half_even_nearest) simp
  ultimately show "round_double 10000000000000001000 = 10000000000000000000"
    by simp
  then show "round_double (10000000000000000000 + 1000) = 10000000000000000000"
    by simp
qed

text \<open>\<open>min_plain\<close> is the double nearest to \<open>10 ^ - 6\<close>.\<close>

lemma min_plain_nearest: "round_double (1 / 10 ^ 6) = min_plain"
proof -
  have "floor_log2 \<bar>1 / 1000000\<bar> = - int (Suc 19)"
    by (rule floor_log2_less1) simp_all
  then have "round_double (1 / 1000000) =
      2 powi (- 20 - 52) * of_int (round_half_even (1 / 1000000 / 2 powi (- 20 - 52)))"
    by (intro round_double_eval) simp_all
  moreover have "round_half_even (1 / 1000000 / 2 powi (- 20 - 52)) = 4722366482869645"
    by (rule round_half_even_nearest) (simp add: power_int_minus_divide)
  ultimately show ?thesis
    by (simp add: power_int_minus_divide min_plain_def)
qed

lemma prints_plain_examples:
  "prints_plain 1000" "prints_plain 2000" "prints_plain 10000000000000000000"
  "\<not> prints_plain (10 ^ 21)"
  by (simp_all add: prints_plain_def min_plain_def)

lemma prints_plain_key:
  "k < 2 ^ 32 \<Longrightarrow> prints_plain ((of_nat k + 1) * 1000)"
proof -
  assume "k < 2 ^ 32"
  then have "(of_nat k :: rat) < 2 ^ 32"
    by (metis of_nat_less_iff of_nat_numeral of_nat_power)
  moreover have "min_plain \<le> 1000"
    by (simp add: min_plain_def)
  moreover have "(0::rat) \<le> of_nat k"
    by simp
  ultimately show ?thesis
    by (simp add: prints_plain_def abs_if)
qed

subsection \<open>Validation, evaluated\<close>

lemma ascii_examples:
  "ascii ''a'' = [97]" "ascii ''c'' = [99]" "ascii ''x'' = [120]" "ascii '' x '' = [32, 120, 32]"
  by (simp_all add: ascii_def)

lemma title_ok_examples:
  "title_ok [97]" "title_ok [99]" "title_ok [120]" "title_ok [32, 120, 32]"
  "trim [97] = [97]" "trim [99] = [99]" "trim [120] = [120]" "trim [32, 120, 32] = [120]"
  "\<not> title_ok [0xA0]" "\<not> title_ok [32, 0x2003]" "\<not> title_ok [0xFE0F]"
  by (simp_all add: title_ok_def isLength_def trim_def is_ws_def is_variation_selector_def)


subsection \<open>The highest position\<close>

lemma highest_None: "highest f xs = None \<longleftrightarrow> xs = []"
  by (induction xs) (auto split: option.splits)

lemma highest_Max: "highest f xs = Some y \<Longrightarrow> y \<in> set xs \<and> f y = Max (f ` set xs)"
proof (induction xs arbitrary: y)
  case Nil
  then show ?case by simp
next
  case (Cons x xs)
  show ?case
  proof (cases "highest f xs")
    case None
    then have "xs = []" by (simp add: highest_None)
    with Cons.prems show ?thesis by simp
  next
    case (Some z)
    then have z: "z \<in> set xs" "f z = Max (f ` set xs)"
      using Cons.IH by auto
    then have ne: "set xs \<noteq> {}" by auto
    have "Max (f ` set (x # xs)) = max (f x) (Max (f ` set xs))"
      using ne by simp
    with Cons.prems Some z show ?thesis
      by (auto split: if_splits simp: max_def)
  qed
qed

subsection \<open>The small board, evaluated\<close>

lemma demo_board_findFirst:
  "board_findFirst demo_db ''B'' ''u1'' =
     Some \<lparr>board_id = ''B'', board_ownerId = ''u1'', board_members = [''u2'']\<rparr>"
  "board_findFirst demo_db ''B'' ''u2'' =
     Some \<lparr>board_id = ''B'', board_ownerId = ''u1'', board_members = [''u2'']\<rparr>"
  "board_findFirst demo_db ''B'' ''u3'' = None"
  by (simp_all add: board_findFirst_def demo_db_def has_access_def)

lemma demo_list_findFirst:
  "list_findFirst demo_db ''L'' ''u1'' =
     Some \<lparr>list_id = ''L'', list_title = ascii ''Todo'', list_boardId = ''B'',
            list_position = 1000\<rparr>"
  "list_findFirst demo_db ''M'' ''u1'' =
     Some \<lparr>list_id = ''M'', list_title = ascii ''Done'', list_boardId = ''B'',
            list_position = 2000\<rparr>"
  "list_findFirst demo_db ''L'' ''u2'' =
     Some \<lparr>list_id = ''L'', list_title = ascii ''Todo'', list_boardId = ''B'',
            list_position = 1000\<rparr>"
  "list_findFirst demo_db ''M'' ''u2'' =
     Some \<lparr>list_id = ''M'', list_title = ascii ''Done'', list_boardId = ''B'',
            list_position = 2000\<rparr>"
  "list_findFirst demo_db ''reorder'' ''u1'' = None"
  by (simp_all add: list_findFirst_def demo_db_def has_access_def)

lemma demo_cards_of:
  "cards_of demo_db ''L'' =
     [\<lparr>card_id = ''A'', card_title = ascii ''a'', card_listId = ''L'', card_position = 1000\<rparr>,
      \<lparr>card_id = ''C'', card_title = ascii ''c'', card_listId = ''L'', card_position = 2000\<rparr>]"
  "cards_of demo_db ''M'' = []"
  by (simp_all add: cards_of_def demo_db_def)

lemma demo_lists:
  "lists demo_db =
     [\<lparr>list_id = ''L'', list_title = ascii ''Todo'', list_boardId = ''B'',
        list_position = 1000\<rparr>,
      \<lparr>list_id = ''M'', list_title = ascii ''Done'', list_boardId = ''B'',
        list_position = 2000\<rparr>]"
  by (simp add: demo_db_def)

lemma demo_lists_of: "lists_of demo_db ''B'' = lists demo_db"
  by (simp add: lists_of_def demo_db_def)

lemma demo_card_findFirst:
  "card_findFirst demo_db ''A'' ''u1'' =
     Some \<lparr>card_id = ''A'', card_title = ascii ''a'', card_listId = ''L'',
            card_position = 1000\<rparr>"
  "card_findFirst demo_db ''C'' ''u1'' =
     Some \<lparr>card_id = ''C'', card_title = ascii ''c'', card_listId = ''L'',
            card_position = 2000\<rparr>"
  "card_findFirst demo_db ''C'' ''u3'' = None"
  by (simp_all add: card_findFirst_def demo_db_def has_access_def)

lemma demo_rooms_B: "demo_rooms (room_name ''B'') = {1, 2}"
  by (auto simp add: demo_rooms_def no_rooms_def demo_socket_def demo_user_def room_name_def
      board_findFirst_def demo_db_def has_access_def)

text \<open>The view the page holds is an answer of \<^verbatim>\<open>GET /boards/B\<close> for \<open>u1\<close>.\<close>

lemma demo_view_fetched: "fetched_board demo_db ''u1'' ''B'' (the demo_view)"
  by (simp add: fetched_board_def demo_board_findFirst demo_lists_of demo_lists demo_cards_of
      demo_view_def ordered_by_def)

subsection \<open>Creation appends after the highest sibling\<close>

lemma card_siblings: "{r \<in> set (cards d). card_listId r = lid} = set (cards_of d lid)"
  by (auto simp add: cards_of_def)

lemma list_siblings: "{r \<in> set (lists d). list_boardId r = bid} = set (lists_of d bid)"
  by (auto simp add: lists_of_def)

text \<open>
  C6, as stated: without a position in the body the new card gets the highest position
  of its list plus 1000. It is false: \<open>u1\<close> creates card \<open>A\<close> in the empty list \<open>L\<close>
  with the position \<open>10 ^ 19\<close> (a double, and accepted by \<open>isNumeric\<close>) and then card
  \<open>C\<close> without a position. The highest position is \<open>10 ^ 19\<close>, and \<open>C\<close> is stored at
  \<open>10 ^ 19\<close> too, not at \<open>10 ^ 19 + 1000\<close>: the sum is a sum of doubles.
\<close>

theorem create_after_large_key_counterexample:
  "round_double 10000000000000000000 = 10000000000000000000 \<and>
   map card_position
     (cards_of
        (fst (create_card demo_empty ''u1'' ''A''
                \<lparr>cc_title = ascii ''a'', cc_listId = ''L'',
                 cc_position = JNumber 10000000000000000000\<rparr>))
        ''L'') = [10000000000000000000] \<and>
   snd (create_card
          (fst (create_card demo_empty ''u1'' ''A''
                  \<lparr>cc_title = ascii ''a'', cc_listId = ''L'',
                   cc_position = JNumber 10000000000000000000\<rparr>))
          ''u1'' ''C'' \<lparr>cc_title = ascii ''c'', cc_listId = ''L'', cc_position = JUndefined\<rparr>) =
     Inr \<lparr>card_id = ''C'', card_title = ascii ''c'', card_listId = ''L'',
          card_position = 10000000000000000000\<rparr> \<and>
   (10000000000000000000 :: rat) \<noteq> 10000000000000000000 + 1000"
proof -
  have l: "list_findFirst demo_empty ''L'' ''u1'' =
     Some \<lparr>list_id = ''L'', list_title = ascii ''Todo'', list_boardId = ''B'',
            list_position = 1000\<rparr>"
    by (simp add: list_findFirst_def demo_empty_def demo_db_def has_access_def)
  have first: "fst (create_card demo_empty ''u1'' ''A''
                \<lparr>cc_title = ascii ''a'', cc_listId = ''L'',
                 cc_position = JNumber 10000000000000000000\<rparr>) =
     demo_empty
       \<lparr>cards := [\<lparr>card_id = ''A'', card_title = ascii ''a'', card_listId = ''L'',
                    card_position = 10000000000000000000\<rparr>],
        activities := [\<lparr>act_type = ''card_created'', act_cardId = ''A'', act_boardId = ''B'',
                         act_userId = ''u1''\<rparr>]\<rparr>"
    by (simp add: create_card_def l ascii_examples title_ok_examples optional_numeric_def
        prints_plain_examples Let_def)
       (simp add: demo_empty_def demo_db_def)
  show ?thesis
    unfolding first
    by (simp add: round_double_far create_card_def ascii_examples title_ok_examples
        optional_numeric_def Let_def cards_of_def js_add_def list_findFirst_def has_access_def
        demo_empty_def demo_db_def)
qed

text \<open>
  C6, amended. A card created in a list, or a list created in a board, with a valid
  title, by a user with access and without a position in the body, is stored with the
  double sum of the highest position among the rows already in that container and 1000,
  that is, with the exact sum rounded to the nearest double; this is the highest position
  plus 1000 itself whenever the highest position is a whole number and the sum has a
  magnitude below \<open>2 ^ 53\<close>. When the container has no row it is stored with 1000.
\<close>

theorem create_adds_step_as_double:
  "(title_ok (cc_title cb) \<and> list_findFirst d (cc_listId cb) uid \<noteq> None \<and>
      cc_position cb = JUndefined \<longrightarrow>
      (\<exists>d' c. create_card d uid cid cb = (d', Inr c) \<and> cards d' = cards d @ [c] \<and>
         card_listId c = cc_listId cb \<and>
         card_position c =
           (if {r \<in> set (cards d). card_listId r = cc_listId cb} = {} then 1000
            else round_double
                   (Max (card_position ` {r \<in> set (cards d). card_listId r = cc_listId cb})
                    + 1000)) \<and>
         (\<forall>n. {r \<in> set (cards d). card_listId r = cc_listId cb} \<noteq> {} \<and>
              Max (card_position ` {r \<in> set (cards d). card_listId r = cc_listId cb}) =
                of_int n \<and> \<bar>n + 1000\<bar> < 2 ^ 53 \<longrightarrow>
              card_position c = of_int n + 1000)))
   \<and>
   (title_ok (cl_title lb) \<and> board_findFirst d (cl_boardId lb) uid \<noteq> None \<and>
      cl_position lb = JUndefined \<longrightarrow>
      (\<exists>d' l'. create_list d uid lid lb = (d', Inr l') \<and> lists d' = lists d @ [l'] \<and>
         list_boardId l' = cl_boardId lb \<and>
         list_position l' =
           (if {r \<in> set (lists d). list_boardId r = cl_boardId lb} = {} then 1000
            else round_double
                   (Max (list_position ` {r \<in> set (lists d). list_boardId r = cl_boardId lb})
                    + 1000)) \<and>
         (\<forall>n. {r \<in> set (lists d). list_boardId r = cl_boardId lb} \<noteq> {} \<and>
              Max (list_position ` {r \<in> set (lists d). list_boardId r = cl_boardId lb}) =
                of_int n \<and> \<bar>n + 1000\<bar> < 2 ^ 53 \<longrightarrow>
              list_position l' = of_int n + 1000)))"
proof (intro conjI impI)
  assume a: "title_ok (cc_title cb) \<and> list_findFirst d (cc_listId cb) uid \<noteq> None \<and>
      cc_position cb = JUndefined"
  let ?sib = "{r \<in> set (cards d). card_listId r = cc_listId cb}"
  have exact: "round_double (of_int n + 1000) = of_int n + 1000" if "\<bar>n + 1000\<bar> < 2 ^ 53" for n
    using round_double_int [OF that] by simp
  show "\<exists>d' c. create_card d uid cid cb = (d', Inr c) \<and> cards d' = cards d @ [c] \<and>
         card_listId c = cc_listId cb \<and>
         card_position c =
           (if ?sib = {} then 1000 else round_double (Max (card_position ` ?sib) + 1000)) \<and>
         (\<forall>n. ?sib \<noteq> {} \<and> Max (card_position ` ?sib) = of_int n \<and> \<bar>n + 1000\<bar> < 2 ^ 53 \<longrightarrow>
              card_position c = of_int n + 1000)"
  proof (cases "highest card_position (cards_of d (cc_listId cb))")
    case None
    then have "cards_of d (cc_listId cb) = []"
      by (simp add: highest_None)
    then have "?sib = {}"
      by (simp add: card_siblings)
    with a None show ?thesis
      by (auto simp add: create_card_def Let_def optional_numeric_def)
  next
    case (Some y)
    then have "cards_of d (cc_listId cb) \<noteq> []"
      using highest_None [of card_position "cards_of d (cc_listId cb)"] by auto
    then have ne: "?sib \<noteq> {}"
      by (simp add: card_siblings)
    have y: "card_position y = Max (card_position ` ?sib)"
      using highest_Max [OF Some] by (simp add: card_siblings)
    from a Some obtain d' c where c: "create_card d uid cid cb = (d', Inr c)"
      "cards d' = cards d @ [c]" "card_listId c = cc_listId cb"
      "card_position c = round_double (card_position y + 1000)"
      by (auto simp add: create_card_def Let_def optional_numeric_def js_add_def)
    have "\<forall>n. ?sib \<noteq> {} \<and> Max (card_position ` ?sib) = of_int n \<and> \<bar>n + 1000\<bar> < 2 ^ 53 \<longrightarrow>
              card_position c = of_int n + 1000"
      using c(4) y exact by auto
    with c ne y show ?thesis
      by auto
  qed
next
  assume a: "title_ok (cl_title lb) \<and> board_findFirst d (cl_boardId lb) uid \<noteq> None \<and>
      cl_position lb = JUndefined"
  let ?sib = "{r \<in> set (lists d). list_boardId r = cl_boardId lb}"
  have exact: "round_double (of_int n + 1000) = of_int n + 1000" if "\<bar>n + 1000\<bar> < 2 ^ 53" for n
    using round_double_int [OF that] by simp
  show "\<exists>d' l'. create_list d uid lid lb = (d', Inr l') \<and> lists d' = lists d @ [l'] \<and>
         list_boardId l' = cl_boardId lb \<and>
         list_position l' =
           (if ?sib = {} then 1000 else round_double (Max (list_position ` ?sib) + 1000)) \<and>
         (\<forall>n. ?sib \<noteq> {} \<and> Max (list_position ` ?sib) = of_int n \<and> \<bar>n + 1000\<bar> < 2 ^ 53 \<longrightarrow>
              list_position l' = of_int n + 1000)"
  proof (cases "highest list_position (lists_of d (cl_boardId lb))")
    case None
    then have "lists_of d (cl_boardId lb) = []"
      by (simp add: highest_None)
    then have "?sib = {}"
      by (simp add: list_siblings)
    with a None show ?thesis
      by (auto simp add: create_list_def Let_def optional_numeric_def)
  next
    case (Some y)
    then have "lists_of d (cl_boardId lb) \<noteq> []"
      using highest_None [of list_position "lists_of d (cl_boardId lb)"] by auto
    then have ne: "?sib \<noteq> {}"
      by (simp add: list_siblings)
    have y: "list_position y = Max (list_position ` ?sib)"
      using highest_Max [OF Some] by (simp add: list_siblings)
    from a Some obtain d' l' where c: "create_list d uid lid lb = (d', Inr l')"
      "lists d' = lists d @ [l']" "list_boardId l' = cl_boardId lb"
      "list_position l' = round_double (list_position y + 1000)"
      by (auto simp add: create_list_def Let_def optional_numeric_def js_add_def)
    have "\<forall>n. ?sib \<noteq> {} \<and> Max (list_position ` ?sib) = of_int n \<and> \<bar>n + 1000\<bar> < 2 ^ 53 \<longrightarrow>
              list_position l' = of_int n + 1000"
      using c(4) y exact by auto
    with c ne y show ?thesis
      by auto
  qed
qed

text \<open>
  On the small board: a card created in \<open>L\<close> (highest 2000) gets 3000, a card created
  in the empty \<open>M\<close> gets 1000, and a third list of \<open>B\<close> gets 3000.
\<close>

theorem create_adds_step_as_double_witness:
  "(\<exists>d' c. create_card demo_db ''u2'' ''N''
              \<lparr>cc_title = ascii '' x '', cc_listId = ''L'', cc_position = JUndefined\<rparr> =
              (d', Inr c) \<and>
            card_position c = 3000) \<and>
   (\<exists>d' c. create_card demo_db ''u2'' ''N''
              \<lparr>cc_title = ascii '' x '', cc_listId = ''M'', cc_position = JUndefined\<rparr> =
              (d', Inr c) \<and>
            card_position c = 1000) \<and>
   (\<exists>d' l. create_list demo_db ''u2'' ''N''
              \<lparr>cl_title = ascii ''x'', cl_boardId = ''B'', cl_position = JUndefined\<rparr> =
              (d', Inr l) \<and>
            list_position l = 3000)"
proof -
  have r: "round_double 3000 = 3000"
    using round_double_int [of 3000] by simp
  have 1: "\<exists>d' c. create_card demo_db ''u2'' ''N''
              \<lparr>cc_title = ascii '' x '', cc_listId = ''L'', cc_position = JUndefined\<rparr> =
              (d', Inr c) \<and>
            card_position c = 3000"
    using create_adds_step_as_double
            [where cb = "\<lparr>cc_title = ascii '' x '', cc_listId = ''L'',
                          cc_position = JUndefined\<rparr>"
               and d = demo_db and uid = "''u2''" and cid = "''N''", THEN conjunct1,
             unfolded card_siblings]
          ascii_examples title_ok_examples demo_list_findFirst
    by (auto simp add: demo_cards_of r)
  have 2: "\<exists>d' c. create_card demo_db ''u2'' ''N''
              \<lparr>cc_title = ascii '' x '', cc_listId = ''M'', cc_position = JUndefined\<rparr> =
              (d', Inr c) \<and>
            card_position c = 1000"
    using create_adds_step_as_double
            [where cb = "\<lparr>cc_title = ascii '' x '', cc_listId = ''M'',
                          cc_position = JUndefined\<rparr>"
               and d = demo_db and uid = "''u2''" and cid = "''N''", THEN conjunct1,
             unfolded card_siblings]
          ascii_examples title_ok_examples demo_list_findFirst
    by (auto simp add: demo_cards_of)
  have 3: "\<exists>d' l. create_list demo_db ''u2'' ''N''
              \<lparr>cl_title = ascii ''x'', cl_boardId = ''B'', cl_position = JUndefined\<rparr> =
              (d', Inr l) \<and>
            list_position l = 3000"
    using create_adds_step_as_double
            [where lb = "\<lparr>cl_title = ascii ''x'', cl_boardId = ''B'',
                          cl_position = JUndefined\<rparr>"
               and d = demo_db and uid = "''u2''" and lid = "''N''", THEN conjunct2,
             unfolded list_siblings]
          ascii_examples title_ok_examples demo_board_findFirst
    by (auto simp add: demo_lists_of demo_lists r)
  from 1 2 3 show ?thesis
    by blast
qed

subsection \<open>Lookups and the move handler\<close>

lemma find_weaker:
  "find (\<lambda>x. P x \<and> Q x) xs = Some y \<Longrightarrow> \<exists>z. find P xs = Some z \<and> P z"
  by (induction xs) (auto split: if_splits)

lemma update_row_found:
  "find (\<lambda>r. key r = i) rows = Some r0 \<Longrightarrow>
   update_row key rows i f = Some (map (\<lambda>r. if key r = i then f r else r) rows, f r0)"
  by (simp add: update_row_def)

lemma find_updated:
  assumes "\<And>r. key (f r) = key r"
  shows "find (\<lambda>r. key r = i) (map (\<lambda>r. if key r = i then f r else r) rows) =
           map_option f (find (\<lambda>r. key r = i) rows)"
  using assms by (induction rows) simp_all

lemma board_findFirst_None:
  "board_findFirst d b uid = None \<longleftrightarrow>
     \<not> list_ex (\<lambda>bd. board_id bd = b \<and> has_access uid bd) (boards d)"
  by (auto simp add: board_findFirst_def find_None_iff list_ex_iff)

lemma move_card_persists:
  assumes c: "card_findFirst d cid uid \<noteq> None"
    and l: "list_findFirst d lid uid \<noteq> None"
    and p: "prints_plain p"
  shows "\<exists>d' c'. move_card d uid cid \<lparr>mv_listId = lid, mv_position = JNumber p\<rparr> =
                  (d', Inr c') \<and>
           card_id c' = cid \<and> card_listId c' = lid \<and> card_position c' = p \<and>
           cards d' = map (\<lambda>r. if card_id r = cid
                                 then r\<lparr>card_listId := lid, card_position := p\<rparr> else r)
                          (cards d) \<and>
           card_place_of d' cid = Some (lid, p) \<and>
           lists d' = lists d \<and> boards d' = boards d"
proof -
  let ?f = "\<lambda>r. r\<lparr>card_listId := lid, card_position := p\<rparr>"
  from c obtain c0 where c0: "card_findFirst d cid uid = Some c0"
    by auto
  from l obtain tl where tl: "list_findFirst d lid uid = Some tl"
    by auto
  from c0 have "\<exists>z. find (\<lambda>r. card_id r = cid) (cards d) = Some z \<and> card_id z = cid"
    unfolding card_findFirst_def by (rule find_weaker)
  then obtain r0 where r0: "find (\<lambda>r. card_id r = cid) (cards d) = Some r0" "card_id r0 = cid"
    by blast
  have "find (\<lambda>r. card_id r = cid) (map (\<lambda>r. if card_id r = cid then ?f r else r) (cards d)) =
          Some (?f r0)"
    using find_updated [of card_id ?f cid "cards d"] r0(1) by simp
  then show ?thesis
    using c0 tl r0 p
    by (simp add: move_card_def update_row_found [OF r0(1)] card_place_of_def)
qed


subsection \<open>The move handler stores the number the client sends\<close>





subsection \<open>The drops on the small board, evaluated\<close>

lemma drag_C_first:
  "handleDragEnd ''B'' demo_view drop_C_first =
     Inr [SetQueryData ''B'' (Some \<lparr>bv_id = ''B'',
            bv_lists =
              [\<lparr>lv_id = ''L'', lv_title = ascii ''Todo'', lv_position = 1000,
                  lv_cards =
                    [\<lparr>card_id = ''C'', card_title = ascii ''c'', card_listId = ''L'',
                        card_position = 1000\<rparr>,
                     \<lparr>card_id = ''A'', card_title = ascii ''a'', card_listId = ''L'',
                        card_position = 2000\<rparr>]\<rparr>,
               \<lparr>lv_id = ''M'', lv_title = ascii ''Done'', lv_position = 2000, lv_cards = []\<rparr>]\<rparr>),
          MoveCardMutate ''C'' ''L'' 1000]"
  by (simp add: demo_view_def handleDragEnd_def drop_C_first_def view_lists_def splice_remove_def
      splice_insert_def renumber_def nth_opt_def set_cards_def enumerate_eq_zip Let_def)

lemma drag_A_into_M:
  "handleDragEnd ''B'' demo_view drop_A_into_M =
     Inr [SetQueryData ''B'' (Some \<lparr>bv_id = ''B'',
            bv_lists =
              [\<lparr>lv_id = ''L'', lv_title = ascii ''Todo'', lv_position = 1000,
                  lv_cards =
                    [\<lparr>card_id = ''C'', card_title = ascii ''c'', card_listId = ''L'',
                        card_position = 1000\<rparr>]\<rparr>,
               \<lparr>lv_id = ''M'', lv_title = ascii ''Done'', lv_position = 2000,
                  lv_cards =
                    [\<lparr>card_id = ''A'', card_title = ascii ''a'', card_listId = ''L'',
                        card_position = 1000\<rparr>]\<rparr>]\<rparr>),
          MoveCardMutate ''A'' ''M'' 1000]"
  by (simp add: demo_view_def handleDragEnd_def drop_A_into_M_def view_lists_def splice_remove_def
      splice_insert_def renumber_def nth_opt_def set_cards_def enumerate_eq_zip Let_def)

lemma demo_move_C:
  "move_card demo_db ''u1'' ''C'' \<lparr>mv_listId = ''L'', mv_position = JNumber 1000\<rparr> =
    (demo_db\<lparr>cards :=
               [\<lparr>card_id = ''A'', card_title = ascii ''a'', card_listId = ''L'',
                  card_position = 1000\<rparr>,
                \<lparr>card_id = ''C'', card_title = ascii ''c'', card_listId = ''L'',
                  card_position = 1000\<rparr>],
             activities :=
               [\<lparr>act_type = ''card_moved'', act_cardId = ''C'', act_boardId = ''B'',
                  act_userId = ''u1''\<rparr>]\<rparr>,
     Inr \<lparr>card_id = ''C'', card_title = ascii ''c'', card_listId = ''L'', card_position = 1000\<rparr>)"
  by (simp add: move_card_def demo_card_findFirst demo_list_findFirst update_row_def
      prints_plain_examples)
     (simp add: demo_db_def)

lemma demo_move_A:
  "move_card demo_db ''u1'' ''A'' \<lparr>mv_listId = ''M'', mv_position = JNumber 1000\<rparr> =
    (demo_db\<lparr>cards :=
               [\<lparr>card_id = ''A'', card_title = ascii ''a'', card_listId = ''M'',
                  card_position = 1000\<rparr>,
                \<lparr>card_id = ''C'', card_title = ascii ''c'', card_listId = ''L'',
                  card_position = 2000\<rparr>],
             activities :=
               [\<lparr>act_type = ''card_moved'', act_cardId = ''A'', act_boardId = ''B'',
                  act_userId = ''u1''\<rparr>]\<rparr>,
     Inr \<lparr>card_id = ''A'', card_title = ascii ''a'', card_listId = ''M'', card_position = 1000\<rparr>)"
  by (simp add: move_card_def demo_card_findFirst demo_list_findFirst update_row_def
      prints_plain_examples)
     (simp add: demo_db_def)

lemma demo_drop_C_first_db:
  "sys_db (fst (drop_on_page demo_system (demo_socket 1 ''u1'') ''B'' demo_view drop_C_first)) =
     demo_db\<lparr>cards :=
               [\<lparr>card_id = ''A'', card_title = ascii ''a'', card_listId = ''L'',
                  card_position = 1000\<rparr>,
                \<lparr>card_id = ''C'', card_title = ascii ''c'', card_listId = ''L'',
                  card_position = 1000\<rparr>],
             activities :=
               [\<lparr>act_type = ''card_moved'', act_cardId = ''C'', act_boardId = ''B'',
                  act_userId = ''u1''\<rparr>]\<rparr>"
  by (simp add: drop_on_page_def drag_C_first moveCardMutation_def demo_system_def
      demo_socket_def demo_user_def demo_move_C)

lemma demo_drop_A_into_M_db:
  "sys_db (fst (drop_on_page demo_system (demo_socket 1 ''u1'') ''B'' demo_view drop_A_into_M)) =
     demo_db\<lparr>cards :=
               [\<lparr>card_id = ''A'', card_title = ascii ''a'', card_listId = ''M'',
                  card_position = 1000\<rparr>,
                \<lparr>card_id = ''C'', card_title = ascii ''c'', card_listId = ''L'',
                  card_position = 2000\<rparr>],
             activities :=
               [\<lparr>act_type = ''card_moved'', act_cardId = ''A'', act_boardId = ''B'',
                  act_userId = ''u1''\<rparr>]\<rparr>"
  by (simp add: drop_on_page_def drag_A_into_M moveCardMutation_def demo_system_def
      demo_socket_def demo_user_def demo_move_A)

subsection \<open>What a drop within one list sends\<close>

lemma renumber_nth:
  "k < length cs \<Longrightarrow> renumber cs ! k = (cs ! k)\<lparr>card_position := (of_nat k + 1) * 1000\<rparr>"
  by (simp add: renumber_def nth_enumerate_eq)

lemma length_renumber: "length (renumber cs) = length cs"
  by (simp add: renumber_def)

lemma splice_back_nth:
  assumes "i < length xs" "j < length xs"
  shows "splice_insert j (xs ! i) (take i xs @ drop (Suc i) xs) ! j = xs ! i"
    and "length (splice_insert j (xs ! i) (take i xs @ drop (Suc i) xs)) = length xs"
proof -
  let ?rest = "take i xs @ drop (Suc i) xs"
  have len: "length ?rest = length xs - 1"
    using assms by simp
  then have j: "j \<le> length ?rest"
    using assms by simp
  then have "length (take j ?rest) = j"
    by simp
  then show "splice_insert j (xs ! i) ?rest ! j = xs ! i"
    unfolding splice_insert_def by (metis nth_append_length)
  show "length (splice_insert j (xs ! i) ?rest) = length xs"
    unfolding splice_insert_def using len assms by simp
qed

lemma same_list_drop:
  assumes l: "find (\<lambda>l. lv_id l = lid) (bv_lists b) = Some l"
    and i: "i < length (lv_cards l)" and j: "j < length (lv_cards l)"
    and ne: "i \<noteq> j" and ty: "ty \<noteq> ''list''"
  shows "\<exists>v. handleDragEnd bid (Some b)
               \<lparr>destination = Some \<lparr>droppableId = lid, drop_index = j\<rparr>,
                source = \<lparr>droppableId = lid, drop_index = i\<rparr>, drag_type = ty\<rparr> =
             Inr [SetQueryData bid v,
                  MoveCardMutate (card_id (lv_cards l ! i)) lid ((of_nat j + 1) * 1000)]"
proof -
  let ?cs = "lv_cards l"
  let ?new = "splice_insert j (?cs ! i) (take i ?cs @ drop (Suc i) ?cs)"
  have len: "length ?new = length ?cs" and at: "?new ! j = ?cs ! i"
    using splice_back_nth [OF i j] by simp_all
  have "nth_opt (renumber ?new) j = Some ((?cs ! i)\<lparr>card_position := (of_nat j + 1) * 1000\<rparr>)"
    using j len at by (simp add: nth_opt_def length_renumber renumber_nth)
  then show ?thesis
    using l i ne ty
    by (simp add: handleDragEnd_def view_lists_def splice_remove_def Let_def)
qed

text \<open>
  C1. The claim: after any sequence of creations, moves and reorders the stored
  positions of the rows of one container are pairwise different, and a move within a
  list, which stores the moved card's position only, leaves no two cards of the list at
  one position. The code at a failing input: list \<open>L\<close> stores \<open>A\<close> at 1000 and \<open>C\<close> at
  2000, as two creations in the empty list leave them; user \<open>u1\<close> drags \<open>C\<close> from index 1 to index 0. The page renumbers both cards in
  its cache (\<open>C\<close> 1000, \<open>A\<close> 2000) and sends the position of \<open>C\<close> alone; the server
  stores it, and \<open>L\<close> now stores \<open>A\<close> and \<open>C\<close> both at 1000.
\<close>

theorem within_list_move_stores_equal_positions:
  "cards
     (fst (create_card
             (fst (create_card demo_empty ''u1'' ''A''
                     \<lparr>cc_title = ascii ''a'', cc_listId = ''L'', cc_position = JUndefined\<rparr>))
             ''u1'' ''C''
             \<lparr>cc_title = ascii ''c'', cc_listId = ''L'', cc_position = JUndefined\<rparr>)) =
     cards demo_db \<and>
   map card_position (cards_of demo_db ''L'') = [1000, 2000] \<and>
   map card_position
     (cards_of
        (sys_db (fst (drop_on_page demo_system (demo_socket 1 ''u1'') ''B'' demo_view
                        drop_C_first)))
        ''L'') = [1000, 1000] \<and>
   \<not> distinct
       (map card_position
          (cards_of
             (sys_db (fst (drop_on_page demo_system (demo_socket 1 ''u1'') ''B'' demo_view
                             drop_C_first)))
             ''L''))"
proof -
  have l: "list_findFirst d ''L'' ''u1'' =
     Some \<lparr>list_id = ''L'', list_title = ascii ''Todo'', list_boardId = ''B'',
            list_position = 1000\<rparr>"
    if "lists d = lists demo_db" "boards d = boards demo_db" for d
    using that by (simp add: list_findFirst_def demo_db_def has_access_def)
  have first: "fst (create_card demo_empty ''u1'' ''A''
                     \<lparr>cc_title = ascii ''a'', cc_listId = ''L'', cc_position = JUndefined\<rparr>) =
     demo_empty
       \<lparr>cards := [\<lparr>card_id = ''A'', card_title = ascii ''a'', card_listId = ''L'',
                    card_position = 1000\<rparr>],
        activities := [\<lparr>act_type = ''card_created'', act_cardId = ''A'', act_boardId = ''B'',
                         act_userId = ''u1''\<rparr>]\<rparr>"
    by (simp add: create_card_def l demo_empty_def ascii_examples title_ok_examples
        optional_numeric_def cards_of_def Let_def)
       (simp add: demo_db_def)
  have "cards
     (fst (create_card
             (fst (create_card demo_empty ''u1'' ''A''
                     \<lparr>cc_title = ascii ''a'', cc_listId = ''L'', cc_position = JUndefined\<rparr>))
             ''u1'' ''C''
             \<lparr>cc_title = ascii ''c'', cc_listId = ''L'', cc_position = JUndefined\<rparr>)) =
     cards demo_db"
    unfolding first
    by (simp add: create_card_def l demo_empty_def ascii_examples title_ok_examples
        optional_numeric_def cards_of_def js_add_small Let_def)
       (simp add: demo_db_def ascii_examples)
  then show ?thesis
    unfolding demo_drop_C_first_db by (simp add: cards_of_def demo_db_def)
qed

text \<open>
  C2, as stated: in that scenario \<open>C\<close> is given the position 500. It is false: the
  position the page sends for \<open>C\<close>, and the server stores, is 1000.
\<close>

theorem drop_to_front_key_counterexample:
  "card_place_of demo_db ''C'' = Some (''L'', 2000) \<and>
   card_place_of
     (sys_db (fst (drop_on_page demo_system (demo_socket 1 ''u1'') ''B'' demo_view
                     drop_C_first)))
     ''C'' \<noteq> Some (''L'', 500) \<and>
   card_place_of
     (sys_db (fst (drop_on_page demo_system (demo_socket 1 ''u1'') ''B'' demo_view
                     drop_C_first)))
     ''C'' = Some (''L'', 1000)"
  unfolding demo_drop_C_first_db by (simp add: card_place_of_def demo_db_def)

text \<open>
  C2, amended. A card dropped within its list, from index \<open>i\<close> to another index \<open>j\<close>
  of the list the page shows (an array, so shorter than \<open>2 ^ 32\<close>), is sent with the
  position \<open>(j + 1) * 1000\<close>, the destination index plus one, times 1000. For a user who
  can reach the card and the list the request succeeds, and the store after the drop is
  the store the move handler returns: the row of the card holds the list and that
  position, every other card row is as it was. For \<open>C\<close> moved from index 1 to index 0
  this is 1000.
\<close>

theorem within_list_drop_assigns_index_key:
  assumes "find (\<lambda>l. lv_id l = lid) (bv_lists b) = Some l"
    and "i < length (lv_cards l)" and "j < length (lv_cards l)"
    and "i \<noteq> j" and "ty \<noteq> ''list''"
    and "length (lv_cards l) < 2 ^ 32"
    and "card_findFirst (sys_db sys) (card_id (lv_cards l ! i)) (user_id (socket_user s)) \<noteq> None"
    and "list_findFirst (sys_db sys) lid (user_id (socket_user s)) \<noteq> None"
  shows "\<exists>v d' c'.
           handleDragEnd bid (Some b)
             \<lparr>destination = Some \<lparr>droppableId = lid, drop_index = j\<rparr>,
              source = \<lparr>droppableId = lid, drop_index = i\<rparr>, drag_type = ty\<rparr> =
             Inr [SetQueryData bid v,
                  MoveCardMutate (card_id (lv_cards l ! i)) lid ((of_nat j + 1) * 1000)] \<and>
           move_card (sys_db sys) (user_id (socket_user s)) (card_id (lv_cards l ! i))
             \<lparr>mv_listId = lid, mv_position = JNumber ((of_nat j + 1) * 1000)\<rparr> =
             (d', Inr c') \<and>
           sys_db (fst (drop_on_page sys s bid (Some b)
             \<lparr>destination = Some \<lparr>droppableId = lid, drop_index = j\<rparr>,
              source = \<lparr>droppableId = lid, drop_index = i\<rparr>, drag_type = ty\<rparr>)) = d' \<and>
           card_id c' = card_id (lv_cards l ! i) \<and> card_listId c' = lid \<and>
           card_position c' = (of_nat j + 1) * 1000 \<and>
           cards d' =
             map (\<lambda>r. if card_id r = card_id (lv_cards l ! i)
                       then r\<lparr>card_listId := lid, card_position := (of_nat j + 1) * 1000\<rparr>
                       else r)
                 (cards (sys_db sys)) \<and>
           card_place_of d' (card_id (lv_cards l ! i)) = Some (lid, (of_nat j + 1) * 1000)"
proof -
  let ?result = "\<lparr>destination = Some \<lparr>droppableId = lid, drop_index = j\<rparr>,
              source = \<lparr>droppableId = lid, drop_index = i\<rparr>, drag_type = ty\<rparr>"
  let ?cid = "card_id (lv_cards l ! i)"
  let ?key = "(of_nat j + 1) * 1000 :: rat"
  obtain v where v: "handleDragEnd bid (Some b) ?result =
             Inr [SetQueryData bid v, MoveCardMutate ?cid lid ?key]"
    using same_list_drop [OF assms(1-5)] by blast
  have "j < 2 ^ 32"
    using assms(3,6) by simp
  then have "prints_plain ?key"
    by (rule prints_plain_key)
  then obtain d' c' where m:
    "move_card (sys_db sys) (user_id (socket_user s)) ?cid
       \<lparr>mv_listId = lid, mv_position = JNumber ?key\<rparr> = (d', Inr c')"
    "card_id c' = ?cid" "card_listId c' = lid" "card_position c' = ?key"
    "cards d' = map (\<lambda>r. if card_id r = ?cid
                          then r\<lparr>card_listId := lid, card_position := ?key\<rparr> else r)
                    (cards (sys_db sys))"
    "card_place_of d' ?cid = Some (lid, ?key)"
    using move_card_persists [OF assms(7,8)] by blast
  have "sys_db (fst (drop_on_page sys s bid (Some b) ?result)) = d'"
    using m(1) by (simp add: drop_on_page_def v moveCardMutation_def)
  with v m show ?thesis
    by blast
qed

text \<open>
  On the small board, for \<open>u1\<close> dragging \<open>C\<close> to the front of \<open>L\<close>: the page sends 1000
  for \<open>C\<close>, and the store after the drop holds \<open>A\<close> and \<open>C\<close> in \<open>L\<close>, both at 1000.
\<close>

theorem within_list_drop_assigns_index_key_witness:
  "\<exists>v d' c'.
     handleDragEnd ''B'' demo_view drop_C_first =
       Inr [SetQueryData ''B'' v, MoveCardMutate ''C'' ''L'' 1000] \<and>
     move_card demo_db ''u1'' ''C'' \<lparr>mv_listId = ''L'', mv_position = JNumber 1000\<rparr> =
       (d', Inr c') \<and>
     sys_db (fst (drop_on_page demo_system (demo_socket 1 ''u1'') ''B'' demo_view
                    drop_C_first)) = d' \<and>
     card_id c' = ''C'' \<and> card_listId c' = ''L'' \<and> card_position c' = 1000 \<and>
     cards d' =
       [\<lparr>card_id = ''A'', card_title = ascii ''a'', card_listId = ''L'',
          card_position = 1000\<rparr>,
        \<lparr>card_id = ''C'', card_title = ascii ''c'', card_listId = ''L'',
          card_position = 1000\<rparr>] \<and>
     card_place_of d' ''C'' = Some (''L'', 1000)"
proof -
  let ?l = "\<lparr>lv_id = ''L'', lv_title = ascii ''Todo'', lv_position = 1000,
             lv_cards =
               [\<lparr>card_id = ''A'', card_title = ascii ''a'', card_listId = ''L'',
                   card_position = 1000\<rparr>,
                \<lparr>card_id = ''C'', card_title = ascii ''c'', card_listId = ''L'',
                   card_position = 2000\<rparr>]\<rparr>"
  let ?b = "\<lparr>bv_id = ''B'',
             bv_lists = [?l, \<lparr>lv_id = ''M'', lv_title = ascii ''Done'', lv_position = 2000,
                              lv_cards = []\<rparr>]\<rparr>"
  let ?s = "demo_socket 1 ''u1''"
  let ?result = "\<lparr>destination = Some \<lparr>droppableId = ''L'', drop_index = 0\<rparr>,
        source = \<lparr>droppableId = ''L'', drop_index = 1\<rparr>, drag_type = ''card''\<rparr>"
  have f: "find (\<lambda>l. lv_id l = ''L'') (bv_lists ?b) = Some ?l"
    by simp
  have u: "user_id (socket_user ?s) = ''u1''" "sys_db demo_system = demo_db"
    by (simp_all add: demo_socket_def demo_user_def demo_system_def)
  have "\<exists>v d' c'.
     handleDragEnd ''B'' (Some ?b) ?result =
       Inr [SetQueryData ''B'' v,
            MoveCardMutate (card_id (lv_cards ?l ! 1)) ''L'' ((of_nat 0 + 1) * 1000)] \<and>
     move_card (sys_db demo_system) (user_id (socket_user ?s)) (card_id (lv_cards ?l ! 1))
       \<lparr>mv_listId = ''L'', mv_position = JNumber ((of_nat 0 + 1) * 1000)\<rparr> = (d', Inr c') \<and>
     sys_db (fst (drop_on_page demo_system ?s ''B'' (Some ?b) ?result)) = d' \<and>
     card_id c' = card_id (lv_cards ?l ! 1) \<and> card_listId c' = ''L'' \<and>
     card_position c' = (of_nat 0 + 1) * 1000 \<and>
     cards d' =
       map (\<lambda>r. if card_id r = card_id (lv_cards ?l ! 1)
                 then r\<lparr>card_listId := ''L'', card_position := (of_nat 0 + 1) * 1000\<rparr>
                 else r)
           (cards (sys_db demo_system)) \<and>
     card_place_of d' (card_id (lv_cards ?l ! 1)) = Some (''L'', (of_nat 0 + 1) * 1000)"
    using within_list_drop_assigns_index_key
            [OF f, where i = 1 and j = 0 and ty = "''card''" and sys = demo_system
               and s = "demo_socket 1 ''u1''" and bid = "''B''"]
    unfolding u
    by (simp add: demo_card_findFirst demo_list_findFirst)
  then obtain v d' c' where
    "handleDragEnd ''B'' demo_view drop_C_first =
       Inr [SetQueryData ''B'' v, MoveCardMutate ''C'' ''L'' 1000]"
    "move_card demo_db ''u1'' ''C'' \<lparr>mv_listId = ''L'', mv_position = JNumber 1000\<rparr> =
       (d', Inr c')"
    "sys_db (fst (drop_on_page demo_system ?s ''B'' demo_view drop_C_first)) = d'"
    "card_id c' = ''C''" "card_listId c' = ''L''" "card_position c' = 1000"
    "cards d' =
       [\<lparr>card_id = ''A'', card_title = ascii ''a'', card_listId = ''L'',
          card_position = 1000\<rparr>,
        \<lparr>card_id = ''C'', card_title = ascii ''c'', card_listId = ''L'',
          card_position = 1000\<rparr>]"
    "card_place_of d' ''C'' = Some (''L'', 1000)"
    unfolding u demo_view_def drop_C_first_def
    by (elim exE conjE) (simp add: demo_db_def)
  then show ?thesis
    by blast
qed

subsection \<open>Rooms and relaying\<close>

text \<open>
  C3. Whatever a connection sends, every emission the server makes in answer goes to the
  sockets of the room of the board named in the message without the sending socket: the
  sender is never among the receivers, nobody outside that room is, and relaying leaves
  the rooms as they are.
\<close>

theorem relay_excludes_sender:
  "\<forall>(recipients, ev) \<in> set (snd (handle d rms s msg)).
      socket_id s \<notin> recipients \<and>
      (\<exists>b. msg_boardId msg = Some b \<and> recipients = rms (room_name b) - {socket_id s}) \<and>
      fst (handle d rms s msg) = rms"
proof (cases msg)
  case (JoinBoard b)
  then show ?thesis
    by (simp split: option.splits)
next
  case (LeaveBoard b)
  then show ?thesis
    by simp
next
  case (CardUpdated c b u)
  then show ?thesis
    by (auto simp: relay_def socket_to_def split: option.splits)
next
  case (CardMoved c b f t p)
  then show ?thesis
    by (auto simp: relay_def socket_to_def split: option.splits)
next
  case (CommentAdded c b t)
  then show ?thesis
    by (auto simp: relay_def socket_to_def split: option.splits)
next
  case (ListUpdated l b u)
  then show ?thesis
    by (auto simp: relay_def socket_to_def split: option.splits)
next
  case (ListsReordered b ls)
  then show ?thesis
    by (auto simp: relay_def socket_to_def split: option.splits)
next
  case Disconnect
  then show ?thesis
    by simp
qed

text \<open>
  With sockets 1 and 2 in the room of \<open>B\<close>, a \<open>card-moved\<close> sent on socket 1 is
  emitted once, to socket 2 alone.
\<close>

theorem relay_excludes_sender_witness:
  "\<exists>recipients.
     snd (handle demo_db demo_rooms (demo_socket 1 ''u1'') (CardMoved ''A'' ''B'' ''L'' ''M'' 1000)) =
       [(recipients, EvCardMoved ''A'' ''B'' ''L'' ''M'' 1000 (Some (demo_user ''u1'')))] \<and>
     1 \<notin> recipients \<and> recipients = {2}"
proof -
  let ?s = "demo_socket 1 ''u1''"
  let ?msg = "CardMoved ''A'' ''B'' ''L'' ''M'' 1000"
  let ?r = "socket_to demo_rooms ?s (room_name ''B'')"
  let ?ev = "EvCardMoved ''A'' ''B'' ''L'' ''M'' 1000 (Some (demo_user ''u1''))"
  have e: "snd (handle demo_db demo_rooms ?s ?msg) = [(?r, ?ev)]"
    by (simp add: relay_def demo_socket_def demo_user_def demo_board_findFirst)
  have "\<forall>(recipients, ev) \<in> set (snd (handle demo_db demo_rooms ?s ?msg)).
      socket_id ?s \<notin> recipients \<and>
      (\<exists>b. msg_boardId ?msg = Some b \<and> recipients = demo_rooms (room_name b) - {socket_id ?s}) \<and>
      fst (handle demo_db demo_rooms ?s ?msg) = demo_rooms"
    by (rule relay_excludes_sender)
  then have "socket_id ?s \<notin> ?r \<and> ?r = demo_rooms (room_name ''B'') - {socket_id ?s}"
    unfolding e by simp
  then have "1 \<notin> ?r \<and> ?r = {2}"
    by (auto simp add: demo_rooms_B demo_socket_def)
  with e show ?thesis
    by (intro exI [of _ ?r]) simp
qed

text \<open>
  C4, as stated: a join by a user without access fails with an authorization error
  reported to the requester. It is false: user \<open>u3\<close> has no access to \<open>B\<close>, and the
  handler answers the join of socket 3 with no emission at all, to the requester or to
  anyone; the rooms stay as they were.
\<close>

theorem join_without_access_counterexample:
  "board_findFirst demo_db ''B'' ''u3'' = None \<and>
   handle demo_db demo_rooms (demo_socket 3 ''u3'') (JoinBoard ''B'') = (demo_rooms, []) \<and>
   received 3 (snd (handle demo_db demo_rooms (demo_socket 3 ''u3'') (JoinBoard ''B''))) = []"
  by (simp add: demo_board_findFirst demo_socket_def demo_user_def received_def)

text \<open>
  C4, amended. A join by a connection whose user neither owns the board nor is a member
  of it is dropped without a word: nothing is emitted and every room keeps its sockets.
  A join by a user who owns the board or is a member of it adds the socket to the room
  of the board, changes no other room, and emits nothing either.
\<close>

theorem join_board_outcome:
  "(\<not> list_ex (\<lambda>bd. board_id bd = b \<and> has_access (user_id (socket_user s)) bd) (boards d) \<longrightarrow>
      handle d rms s (JoinBoard b) = (rms, [])) \<and>
   (list_ex (\<lambda>bd. board_id bd = b \<and> has_access (user_id (socket_user s)) bd) (boards d) \<longrightarrow>
      handle d rms s (JoinBoard b) =
        (rms(room_name b := insert (socket_id s) (rms (room_name b))), []))"
  using board_findFirst_None [of d b "user_id (socket_user s)"]
  by (auto split: option.splits)

text \<open>
  On the small board the join of \<open>u3\<close> changes nothing and the join of the member
  \<open>u2\<close> on socket 5 puts socket 5 into the room of \<open>B\<close>.
\<close>

theorem join_board_outcome_witness:
  "handle demo_db demo_rooms (demo_socket 3 ''u3'') (JoinBoard ''B'') = (demo_rooms, []) \<and>
   fst (handle demo_db demo_rooms (demo_socket 5 ''u2'') (JoinBoard ''B'')) (room_name ''B'') =
     {1, 2, 5}"
proof -
  have n: "\<not> list_ex (\<lambda>bd. board_id bd = ''B'' \<and>
                  has_access (user_id (socket_user (demo_socket 3 ''u3''))) bd) (boards demo_db)"
    by (simp add: demo_db_def has_access_def demo_socket_def demo_user_def)
  have y: "list_ex (\<lambda>bd. board_id bd = ''B'' \<and>
                  has_access (user_id (socket_user (demo_socket 5 ''u2''))) bd) (boards demo_db)"
    by (simp add: demo_db_def has_access_def demo_socket_def demo_user_def)
  have 1: "handle demo_db demo_rooms (demo_socket 3 ''u3'') (JoinBoard ''B'') = (demo_rooms, [])"
    using join_board_outcome [of "''B''" "demo_socket 3 ''u3''" demo_db demo_rooms] n
    by blast
  have "handle demo_db demo_rooms (demo_socket 5 ''u2'') (JoinBoard ''B'') =
        (demo_rooms(room_name ''B'' :=
           insert (socket_id (demo_socket 5 ''u2'')) (demo_rooms (room_name ''B''))), [])"
    using join_board_outcome [of "''B''" "demo_socket 5 ''u2''" demo_db demo_rooms] y
    by blast
  then have 2: "fst (handle demo_db demo_rooms (demo_socket 5 ''u2'') (JoinBoard ''B''))
                  (room_name ''B'') = {1, 2, 5}"
    by (auto simp add: demo_rooms_B demo_socket_def)
  from 1 2 show ?thesis
    by blast
qed

subsection \<open>A move is not announced\<close>

lemma handleDragEnd_effects:
  "handleDragEnd boardId board result = Inr es \<Longrightarrow>
   es = [] \<or> (\<exists>ids. es = [ReorderListsMutate ids]) \<or>
   (\<exists>v c l p. es = [SetQueryData boardId v, MoveCardMutate c l p])"
  by (auto simp add: handleDragEnd_def Let_def
      split: option.splits if_splits prod.splits)

lemma drop_on_page_silent: "snd (drop_on_page sys s boardId board result) = []"
proof (cases "handleDragEnd boardId board result")
  case (Inl e)
  then show ?thesis
    by (simp add: drop_on_page_def)
next
  case (Inr es)
  from handleDragEnd_effects [OF Inr] show ?thesis
    by (auto simp add: drop_on_page_def Inr)
qed

text \<open>
  C5. The claim: with two clients subscribed to board \<open>B\<close>, when client 1 moves a card
  and the write succeeds, client 2 receives a \<open>card-moved\<close> event and client 1 does
  not. The code at a failing input: sockets 1 (user \<open>u1\<close>) and 2 (user \<open>u2\<close>) are in
  the room of \<open>B\<close>; \<open>u1\<close> drags card \<open>A\<close> from list \<open>L\<close> to list \<open>M\<close>. The request is
  stored (\<open>A\<close> is now in \<open>M\<close> at 1000), and nothing is emitted: the page sends no
  \<open>card-moved\<close> on its socket, the mutation has no callback for success, and the move
  handler emits nothing. Socket 2 receives no event.
\<close>

theorem stored_move_reaches_no_client:
  "demo_rooms (room_name ''B'') = {1, 2} \<and>
   card_place_of
     (sys_db (fst (drop_on_page demo_system (demo_socket 1 ''u1'') ''B'' demo_view
                     drop_A_into_M)))
     ''A'' = Some (''M'', 1000) \<and>
   snd (drop_on_page demo_system (demo_socket 1 ''u1'') ''B'' demo_view drop_A_into_M) = [] \<and>
   received 2
     (snd (drop_on_page demo_system (demo_socket 1 ''u1'') ''B'' demo_view drop_A_into_M)) = []"
  unfolding demo_drop_A_into_M_db drop_on_page_silent
  by (simp add: demo_rooms_B card_place_of_def demo_db_def received_def)

subsection \<open>What the page does with a server event\<close>

text \<open>
  C10. On any server event the page invalidates the board query, and so fetches the
  whole board again, exactly when the identifier of the acting user in the event differs
  from the identifier of the page's own user; otherwise it does nothing. It never writes
  the event's data into its cache. The comparison is on user identifiers: an event
  relayed from a socket of user \<open>x\<close> makes a receiving page of user \<open>u\<close> fetch again
  exactly when \<open>x\<close> and \<open>u\<close> differ, so a page of the same user on another connection
  ignores the event.
\<close>

theorem server_event_refetch_rule:
  "on_server_event me boardId ev =
     (if map_option user_id (event_actor ev) \<noteq> map_option user_id me
      then [InvalidateQueries boardId] else []) \<and>
   (\<forall>(recipients, ev') \<in> set (snd (handle d rms s msg)).
      on_server_event (Some u) boardId ev' =
        (if user_id (socket_user s) \<noteq> user_id u then [InvalidateQueries boardId] else []))"
proof
  show "on_server_event me boardId ev =
     (if map_option user_id (event_actor ev) \<noteq> map_option user_id me
      then [InvalidateQueries boardId] else [])"
    by (cases ev) simp_all
  show "\<forall>(recipients, ev') \<in> set (snd (handle d rms s msg)).
      on_server_event (Some u) boardId ev' =
        (if user_id (socket_user s) \<noteq> user_id u then [InvalidateQueries boardId] else [])"
    by (cases msg) (auto simp: relay_def split: option.splits)
qed

text \<open>
  The \<open>card-moved\<close> that socket 1 of \<open>u1\<close> sends makes a page of \<open>u2\<close> fetch board
  \<open>B\<close> again and is ignored by a page of \<open>u1\<close>.
\<close>

theorem server_event_refetch_rule_witness:
  "snd (handle demo_db demo_rooms (demo_socket 1 ''u1'') (CardMoved ''A'' ''B'' ''L'' ''M'' 1000)) =
     [({2}, EvCardMoved ''A'' ''B'' ''L'' ''M'' 1000 (Some (demo_user ''u1'')))] \<and>
   on_server_event (Some (demo_user ''u2'')) ''B''
     (EvCardMoved ''A'' ''B'' ''L'' ''M'' 1000 (Some (demo_user ''u1''))) =
     [InvalidateQueries ''B''] \<and>
   on_server_event (Some (demo_user ''u1'')) ''B''
     (EvCardMoved ''A'' ''B'' ''L'' ''M'' 1000 (Some (demo_user ''u1''))) = []"
proof -
  let ?ev = "EvCardMoved ''A'' ''B'' ''L'' ''M'' 1000 (Some (demo_user ''u1''))"
  let ?out = "snd (handle demo_db demo_rooms (demo_socket 1 ''u1'')
                     (CardMoved ''A'' ''B'' ''L'' ''M'' 1000))"
  have e: "?out = [({2}, ?ev)]"
    by (auto simp add: relay_def socket_to_def demo_socket_def demo_user_def
        demo_board_findFirst demo_rooms_B)
  have r: "\<And>u. \<forall>(recipients, ev') \<in> set ?out.
      on_server_event (Some u) ''B'' ev' =
        (if user_id (socket_user (demo_socket 1 ''u1'')) \<noteq> user_id u
         then [InvalidateQueries ''B''] else [])"
    using server_event_refetch_rule [THEN conjunct2] by blast
  have 2: "on_server_event (Some (demo_user ''u2'')) ''B'' ?ev = [InvalidateQueries ''B'']"
    using r [of "demo_user ''u2''"] unfolding e
    by (simp add: demo_socket_def demo_user_def)
  have 1: "on_server_event (Some (demo_user ''u1'')) ''B'' ?ev = []"
    using r [of "demo_user ''u1''"] unfolding e
    by (simp add: demo_socket_def demo_user_def)
  from e 1 2 show ?thesis
    by blast
qed

subsection \<open>Reordering lists\<close>

text \<open>
  A \<open>PUT\<close> request whose path under \<^verbatim>\<open>/lists\<close> has one segment, \<^verbatim>\<open>reorder\<close> among
  them, is handled by the first route, \<^verbatim>\<open>'/:id'\<close>, with the segment for the identifier.
\<close>

lemma lists_router_put_segment:
  "lists_router_put d uid [seg] body = update_list d uid seg body"
  by (simp add: lists_router_put_def lists_put_routes_def route_matches_def
      update_list_route_def)


lemma demo_drag_M_first:
  "handleDragEnd ''B'' demo_view drop_M_first = Inr [ReorderListsMutate [''M'', ''L'']]"
  by (simp add: handleDragEnd_def demo_view_def drop_M_first_def view_lists_def
      splice_remove_def splice_insert_def Let_def)

lemma demo_reorder_handler:
  "reorder_lists demo_db ''u1'' reorder_M_L =
     (demo_db\<lparr>lists :=
                [\<lparr>list_id = ''L'', list_title = ascii ''Todo'', list_boardId = ''B'',
                   list_position = 2000\<rparr>,
                 \<lparr>list_id = ''M'', list_title = ascii ''Done'', list_boardId = ''B'',
                   list_position = 1000\<rparr>]\<rparr>,
      Inr ListsReordered_ok)"
  by (simp add: reorder_lists_def reorder_M_L_def demo_board_findFirst reorder_updates_def
      enumerate_eq_zip demo_lists update_row_def)

text \<open>
  C7. The claim: a reorder of the lists of a board, given a sequence of list
  identifiers, gives the \<open>i\<close>-th identifier the position \<open>(i + 1) * 1000\<close>. The code at
  a failing input: on the small board \<open>u1\<close> drags the list \<open>M\<close> from index 1 to index
  0, and the page sends \<^verbatim>\<open>PUT /lists/reorder\<close> with the identifiers \<open>M\<close>, \<open>L\<close> and the
  board \<open>B\<close>. In the lists router \<^verbatim>\<open>router.put('/:id')\<close> is registered before
  \<^verbatim>\<open>router.put('/reorder')\<close>: the request is taken by the first, with \<^verbatim>\<open>reorder\<close> for
  the identifier of a list, passes its validators (both fields are optional), finds no
  such list and is answered 404. The store is unchanged: \<open>M\<close> stays at 2000 and \<open>L\<close> at
  1000, where the claim has \<open>M\<close> at 1000 and \<open>L\<close> at 2000. The handler registered for
  \<^verbatim>\<open>'/reorder'\<close> would have stored those positions, and is never reached.
\<close>

theorem reorder_request_renumbers_nothing:
  "handleDragEnd ''B'' demo_view drop_M_first = Inr [ReorderListsMutate [''M'', ''L'']] \<and>
   map fst lists_put_routes = [[Param], [Literal ''reorder'']] \<and>
   route_matches [Param] [''reorder''] \<and>
   lists_router_put demo_db ''u1'' [''reorder''] reorder_M_L = (demo_db, Inl NotFound) \<and>
   sys_db (fst (drop_on_page demo_system (demo_socket 1 ''u1'') ''B'' demo_view drop_M_first)) =
     demo_db \<and>
   list_position_of demo_db ''M'' = Some 2000 \<and>
   list_position_of demo_db ''L'' = Some 1000 \<and>
   snd (reorder_lists demo_db ''u1'' reorder_M_L) = Inr ListsReordered_ok \<and>
   list_position_of (fst (reorder_lists demo_db ''u1'' reorder_M_L)) ''M'' = Some 1000 \<and>
   list_position_of (fst (reorder_lists demo_db ''u1'' reorder_M_L)) ''L'' = Some 2000"
proof -
  have r: "lists_router_put demo_db ''u1'' [''reorder''] reorder_M_L = (demo_db, Inl NotFound)"
    by (simp add: lists_router_put_segment update_list_def reorder_M_L_def
        optional_numeric_def demo_list_findFirst)
  have "sys_db (fst (drop_on_page demo_system (demo_socket 1 ''u1'') ''B'' demo_view
                       drop_M_first)) = demo_db"
    using r
    by (simp add: drop_on_page_def demo_drag_M_first reorderListsMutation_def
        demo_system_def demo_socket_def demo_user_def reorder_M_L_def)
  moreover have "list_position_of demo_db ''M'' = Some 2000"
    "list_position_of demo_db ''L'' = Some 1000"
    by (simp_all add: list_position_of_def demo_lists)
  moreover have "map fst lists_put_routes = [[Param], [Literal ''reorder'']]"
    "route_matches [Param] [''reorder'']"
    by (simp_all add: lists_put_routes_def route_matches_def)
  ultimately show ?thesis
    using r by (simp add: demo_drag_M_first demo_reorder_handler list_position_of_def)
qed

text \<open>
  The handler registered for \<^verbatim>\<open>'/reorder'\<close>, taken alone, issues one update for each
  identifier and no transaction: were it reached with the identifiers \<open>M\<close>, \<open>ghost\<close>,
  \<open>L\<close>, of which \<open>ghost\<close> names no list, it would answer 500 with \<open>M\<close> at 1000 and
  \<open>L\<close> at 3000 stored.
\<close>

lemma reorder_handler_alone:
  "reorder_lists demo_db ''u1''
     \<lparr>lp_title = None, lp_position = JUndefined, lp_listIds = Some [''M'', ''ghost'', ''L''],
      lp_boardId = Some ''B''\<rparr> =
     (demo_db\<lparr>lists :=
                [\<lparr>list_id = ''L'', list_title = ascii ''Todo'', list_boardId = ''B'',
                   list_position = 3000\<rparr>,
                 \<lparr>list_id = ''M'', list_title = ascii ''Done'', list_boardId = ''B'',
                   list_position = 1000\<rparr>]\<rparr>,
      Inl ServerError)"
  by (simp add: reorder_lists_def demo_board_findFirst reorder_updates_def
      enumerate_eq_zip demo_lists update_row_def)



end
